theory Spec2Isabelle
  imports Complex_Main "HOL-Library.Log_Nat"
begin

section \<open>Data model of \<open>graph_definition.py\<close>\<close>

text \<open>
  The module builds one graph (a \<open>torch_geometric\<close> \<open>Data\<close> object) from a 2-D feature
  table. Python floats are modelled as \<open>real\<close>; a conversion to the configured torch
  dtype is the function \<open>dtype\<close> of the configuration. Exceptions are values of
  \<open>exn\<close>; a computation that can raise returns \<open>exn + 'a\<close>.
\<close>

datatype exn =
  AssertionError | ValueError | AttributeError | IndexError | TypeError | RuntimeError

text \<open>
  A 2-D array or tensor: \<open>shape = (length (rows a), ncols a)\<close>. The column count is kept
  apart from the rows, since an array with no rows still has a second dimension.
\<close>

record ndarray =
  ncols :: nat
  rows :: "real list list"


text \<open>
  A numpy array is a 2-D array with an element type and a flag. \<open>store_as a v\<close> is the
  value the array holds after \<open>v\<close> (a float64) is assigned to one of its elements:
  \<open>v\<close> itself for a float64 array, \<open>v\<close> rounded for a float32 array, \<open>v\<close> truncated
  for an integer array. An array that is not \<open>writeable\<close> refuses assignment.
\<close>

record nparray = ndarray +
  store_as :: "real \<Rightarrow> real"
  writeable :: bool

text \<open>
  The values a field of the graph holds: tensors of dimension 2, 1 and 0, an integer
  scalar tensor, a string, a list of strings. The graph itself is the \<open>Data\<close> store,
  a dictionary from field name to value; \<open>graph.x\<close> and \<open>graph["x"]\<close> are the same entry.
\<close>

datatype gval =
  Tensor2 ndarray | Tensor1 "real list" | Tensor0 real | IntTensor0 int
  | Str string | StrList "string list"

type_synonym data = "string \<Rightarrow> gval option"

text \<open>Messages handed to the logger; the payload is what the f-string interpolates.\<close>

datatype message =
  WillPerturb "string list" "real list"
  | NoEdgeDefinition
  | CannotAssignX
  | CouldNotAssign string string

datatype level = WARNING | DEBUG

text \<open>
  The primitives of numpy and torch the module calls, taken as parameters:
  \<open>default_rng seed\<close>, \<open>Generator.normal(loc, scale)\<close> (which returns the samples and
  leaves the generator in a new state), \<open>torch.tensor(value)\<close> on a truth value, and
  \<open>type(value).__name__\<close>. \<open>'g\<close> is the generator state, \<open>'v\<close> the type of truth values.
\<close>

record ('g, 'v) library =
  default_rng :: "int \<Rightarrow> exn + 'g"
  normal :: "'g \<Rightarrow> real list list \<Rightarrow> real list \<Rightarrow> (exn + real list list) \<times> 'g"
  torch_tensor :: "'v \<Rightarrow> exn + gval"
  type_name :: "'v \<Rightarrow> string"

text \<open>
  The collaborators, by the interface the module uses. A \<open>Detector\<close> declares its
  feature map and standardizes a tensor; a \<open>NodeDefinition\<close> is told the input feature
  names at construction (\<open>set_output_feature_names\<close>, \<open>set_number_of_inputs\<close>), reports
  \<open>nb_outputs\<close> and builds the graph with its node feature names; an \<open>EdgeDefinition\<close>
  maps a graph to a graph.
\<close>

record detector =
  feature_map_keys :: "string list"
  standardize :: "ndarray \<Rightarrow> string list \<Rightarrow> exn + ndarray"

record node_definition =
  nd_nb_outputs :: "string list \<Rightarrow> nat"
  nd_call :: "string list \<Rightarrow> ndarray \<Rightarrow> exn + (data \<times> string list)"

type_synonym edge_definition = "data \<Rightarrow> exn + data"

datatype 'g seed = SeedInt int | SeedGenerator 'g | SeedOther

text \<open>
  The object after \<open>__init__\<close>. \<open>perturbation_cols\<close> and \<open>loss_weight_default_value_attr\<close>
  (the attribute \<open>self._loss_weight_default_value\<close>) are \<open>None\<close> while the attribute is
  not set; reading an attribute that is not set raises \<open>AttributeError\<close>.
\<close>

record graph_definition =
  the_detector :: detector
  the_edge_definition :: "edge_definition option"
  the_node_definition :: node_definition
  perturbation_dict :: "(string \<times> real) list option"
  input_feature_names :: "string list"
  dtype :: "real \<Rightarrow> real"
  nb_inputs :: nat
  nb_outputs :: nat
  perturbation_cols :: "nat list option"
  loss_weight_default_value_attr :: "real option"
  class_name :: string

text \<open>
  What a call can change: the generator \<open>self.rng\<close>, the numpy arrays it is handed
  (a store from reference to array: the caller keeps its reference), the set of
  warnings already given once, and the messages emitted.
\<close>

record 'g state =
  rng :: 'g
  heap :: "nat \<Rightarrow> nparray"
  warned_once :: "message list"
  emitted :: "(level \<times> message) list"

type_synonym ('g, 'a) prog = "'g state \<Rightarrow> (exn + 'a) \<times> 'g state"

definition bind_se :: "('g, 'a) prog \<Rightarrow> ('a \<Rightarrow> ('g, 'b) prog) \<Rightarrow> ('g, 'b) prog" where
  "bind_se m f = (\<lambda>s. case m s of (Inl e, s') \<Rightarrow> (Inl e, s') | (Inr a, s') \<Rightarrow> f a s')"

definition lift_se :: "exn + 'a \<Rightarrow> ('g, 'a) prog" where
  "lift_se r = (\<lambda>s. (r, s))"

text \<open>
  Modelled from the spec: the base \<open>Model\<close> class is not part of the source; its
  logging primitives are "one-time/deduplicated warning and debug logging". A warning
  given once is emitted the first time its message is seen and never again.
\<close>

definition warning_once :: "message \<Rightarrow> 'g state \<Rightarrow> 'g state" where
  "warning_once m s =
     (if m \<in> set (warned_once s) then s
      else s\<lparr>warned_once := m # warned_once s, emitted := emitted s @ [(WARNING, m)]\<rparr>)"

definition debug :: "message \<Rightarrow> 'g state \<Rightarrow> 'g state" where
  "debug m s = s\<lparr>emitted := emitted s @ [(DEBUG, m)]\<rparr>"

section \<open>Construction\<close>

text \<open>\<open>list.index\<close>: the first position of the key, \<open>ValueError\<close> when it is absent.\<close>

fun index :: "'a list \<Rightarrow> 'a \<Rightarrow> exn + nat" where
  "index [] k = Inl ValueError"
| "index (x # xs) k =
     (if x = k then Inr 0
      else case index xs k of Inl e \<Rightarrow> Inl e | Inr i \<Rightarrow> Inr (Suc i))"

text \<open>The comprehension \<open>[names.index(key) for key in keys]\<close>.\<close>

fun index_all :: "'a list \<Rightarrow> 'a list \<Rightarrow> exn + nat list" where
  "index_all names [] = Inr []"
| "index_all names (key # keys) =
     (case index names key of
        Inl e \<Rightarrow> Inl e
      | Inr i \<Rightarrow> (case index_all names keys of Inl e \<Rightarrow> Inl e | Inr is \<Rightarrow> Inr (i # is)))"

record 'g init_args =
  arg_detector :: detector
  arg_node_definition :: node_definition
  arg_edge_definition :: "edge_definition option"
  arg_input_feature_names :: "string list option"
  arg_dtype :: "real \<Rightarrow> real"
  arg_perturbation_dict :: "(string \<times> real) list option"
  arg_seed :: "'g seed option"
  arg_class_name :: string

text \<open>Without explicit names, the keys of the detector's feature map are used.\<close>

definition resolve_names :: "detector \<Rightarrow> string list option \<Rightarrow> string list" where
  "resolve_names det given_names =
     (case given_names of None \<Rightarrow> feature_map_keys det | Some ns \<Rightarrow> ns)"

text \<open>
  \<open>__init__\<close>, in its two parts. The member variables: the feature names are resolved,
  the dimensions recorded, and the columns to perturb looked up once (\<open>ValueError\<close>
  from \<open>list.index\<close> when a name is not among the input feature names). The calls
  that hand the names to the node definition and \<open>self.to(dtype)\<close> belong to the
  collaborators; their effect is in \<open>nd_nb_outputs\<close>, \<open>nd_call\<close> and \<open>dtype\<close>.
\<close>

definition init_members :: "'g init_args \<Rightarrow> exn + graph_definition" where
  "init_members args =
     (let names = resolve_names (arg_detector args) (arg_input_feature_names args);
          self = \<lparr>the_detector = arg_detector args,
                  the_edge_definition = arg_edge_definition args,
                  the_node_definition = arg_node_definition args,
                  perturbation_dict = arg_perturbation_dict args,
                  input_feature_names = names,
                  dtype = arg_dtype args,
                  nb_inputs = length names,
                  nb_outputs = nd_nb_outputs (arg_node_definition args) names,
                  perturbation_cols = None,
                  loss_weight_default_value_attr = None,
                  class_name = arg_class_name args\<rparr>
      in case arg_perturbation_dict args of
           None \<Rightarrow> Inr self
         | Some d \<Rightarrow>
             (case index_all names (map fst d) of
                Inl e \<Rightarrow> Inl e
              | Inr cols \<Rightarrow> Inr (self\<lparr>perturbation_cols := Some cols\<rparr>)))"

text \<open>
  The generator: \<open>fresh\<close> is the one that \<open>default_rng()\<close> draws from system entropy
  when no seed is given.
\<close>

definition init_rng :: "('g, 'v) library \<Rightarrow> 'g seed option \<Rightarrow> 'g \<Rightarrow> exn + 'g" where
  "init_rng lib seed fresh =
     (case seed of
        Some (SeedInt n) \<Rightarrow> default_rng lib n
      | Some (SeedGenerator g) \<Rightarrow> Inr g
      | Some SeedOther \<Rightarrow> Inl ValueError
      | None \<Rightarrow> Inr fresh)"

text \<open>The result of \<open>__init__\<close> is the object and its generator.\<close>

definition init ::
  "('g, 'v) library \<Rightarrow> 'g init_args \<Rightarrow> 'g \<Rightarrow> exn + (graph_definition \<times> 'g)" where
  "init lib args fresh =
     (case init_members args of
        Inl e \<Rightarrow> Inl e
      | Inr self \<Rightarrow>
          (case init_rng lib (arg_seed args) fresh of
             Inl e \<Rightarrow> Inl e
           | Inr g \<Rightarrow> Inr (self, g)))"

section \<open>Validation\<close>

text \<open>
  \<open>_validate_input\<close>. Here and in \<open>forward\<close>, \<open>names\<close> is the argument
  \<open>input_feature_names\<close> of the call, and \<open>input_feature_names self\<close> is the attribute
  \<open>self._input_feature_names\<close>. First the loop
  \<open>for idx in range(len(input_feature_names)): assert ...\<close>.
\<close>

fun check_order :: "string list \<Rightarrow> string list \<Rightarrow> nat list \<Rightarrow> exn + unit" where
  "check_order names expected [] = Inr ()"
| "check_order names expected (idx # rest) =
     (if names ! idx = expected ! idx then check_order names expected rest
      else Inl AssertionError)"

definition validate_input :: "graph_definition \<Rightarrow> nparray \<Rightarrow> string list \<Rightarrow> exn + unit" where
  "validate_input self input_features names =
     (if ncols input_features \<noteq> length names then Inl AssertionError
      else if length names \<noteq> length (input_feature_names self) then Inl AssertionError
      else check_order names (input_feature_names self) [0..<length names])"

section \<open>Perturbation\<close>

text \<open>
  \<open>input_features[:, cols]\<close> with a list of column indices: a new array holding the
  chosen columns, \<open>IndexError\<close> when an index is outside the second dimension.
\<close>

definition take_columns :: "nparray \<Rightarrow> nat list \<Rightarrow> exn + real list list" where
  "take_columns a cols =
     (if list_all (\<lambda>c. c < ncols a) cols
      then Inr (map (\<lambda>r. map (\<lambda>c. r ! c) cols) (rows a))
      else Inl IndexError)"

text \<open>
  \<open>input_features[:, cols] = values\<close>: the assignment writes into the array itself.
  A read-only array refuses it (\<open>ValueError\<close>: assignment destination is read-only).
  Row by row, the j-th value, converted to the element type of the array, goes to
  column \<open>cols ! j\<close>. The sampler returns an array of the shape of \<open>loc\<close>; a value of
  another shape is refused with \<open>ValueError\<close>.
\<close>

fun put_row :: "real list \<Rightarrow> nat list \<Rightarrow> real list \<Rightarrow> real list" where
  "put_row r (c # cols) (v # vs) = put_row (r[c := v]) cols vs"
| "put_row r _ _ = r"

definition put_columns :: "nparray \<Rightarrow> nat list \<Rightarrow> real list list \<Rightarrow> exn + nparray" where
  "put_columns a cols vals =
     (if \<not> writeable a then Inl ValueError
      else if \<not> list_all (\<lambda>c. c < ncols a) cols then Inl IndexError
      else if length vals \<noteq> length (rows a) \<or> \<not> list_all (\<lambda>v. length v = length cols) vals
      then Inl ValueError
      else Inr (a\<lparr>rows := map2 (\<lambda>r v. put_row r cols (map (store_as a) v)) (rows a) vals\<rparr>))"

text \<open>
  \<open>_perturb_input\<close>. The argument is a reference to the caller's array; the result is
  the same reference.
\<close>

definition perturb_input ::
  "('g, 'v) library \<Rightarrow> graph_definition \<Rightarrow> nat \<Rightarrow> ('g, nat) prog" where
  "perturb_input lib self input_features s =
     (case perturbation_dict self of
        None \<Rightarrow> (Inr input_features, s)
      | Some d \<Rightarrow>
          (let s1 = warning_once (WillPerturb (map fst d) (map snd d)) s
           in case perturbation_cols self of
                None \<Rightarrow> (Inl AttributeError, s1)
              | Some cols \<Rightarrow>
                  (case take_columns (heap s1 input_features) cols of
                     Inl e \<Rightarrow> (Inl e, s1)
                   | Inr loc \<Rightarrow>
                       (case normal lib (rng s1) loc (map snd d) of
                          (Inl e, g) \<Rightarrow> (Inl e, s1\<lparr>rng := g\<rparr>)
                        | (Inr perturbed_features, g) \<Rightarrow>
                            (let s2 = s1\<lparr>rng := g\<rparr>
                             in case put_columns (heap s2 input_features) cols
                                       perturbed_features of
                                  Inl e \<Rightarrow> (Inl e, s2)
                                | Inr a \<Rightarrow>
                                    (Inr input_features,
                                     s2\<lparr>heap := (heap s2)(input_features := a)\<rparr>))))))"

section \<open>Attaching fields\<close>

text \<open>\<open>torch.tensor(v, dtype=self.dtype).reshape(-1, 1)\<close>: one row, one column.\<close>

definition column_vector :: "(real \<Rightarrow> real) \<Rightarrow> real \<Rightarrow> gval" where
  "column_vector cast v = Tensor2 \<lparr>ncols = 1, rows = [[cast v]]\<rparr>"

definition add_loss_weights ::
  "graph_definition \<Rightarrow> data \<Rightarrow> string option \<Rightarrow> real option \<Rightarrow> real option \<Rightarrow> exn + data" where
  "add_loss_weights self graph loss_weight_column loss_weight loss_weight_default_value =
     (case loss_weight of
        None \<Rightarrow> Inr graph
      | Some w \<Rightarrow>
          (case loss_weight_column of
             None \<Rightarrow> Inr graph
           | Some col \<Rightarrow>
               if w < 0 then
                 (if loss_weight_default_value = None then Inl ValueError
                  else case loss_weight_default_value_attr self of
                         None \<Rightarrow> Inl AttributeError
                       | Some d \<Rightarrow> Inr (graph(col \<mapsto> column_vector (dtype self) d)))
               else Inr (graph(col \<mapsto> column_vector (dtype self) w))))"

text \<open>
  \<open>_add_truth\<close>: the inner loop over one dictionary's items, then the loop over the
  dictionaries. Only \<open>TypeError\<close> is caught.
\<close>

fun add_truth_items ::
  "('g, 'v) library \<Rightarrow> (string \<times> 'v) list \<Rightarrow> data \<Rightarrow> ('g, data) prog" where
  "add_truth_items lib [] graph s = (Inr graph, s)"
| "add_truth_items lib ((key, val) # rest) graph s =
     (case torch_tensor lib val of
        Inr t \<Rightarrow> add_truth_items lib rest (graph(key \<mapsto> t)) s
      | Inl e \<Rightarrow>
          if e = TypeError
          then add_truth_items lib rest graph
                 (debug (CouldNotAssign key (type_name lib val)) s)
          else (Inl e, s))"

fun add_truth ::
  "('g, 'v) library \<Rightarrow> (string \<times> 'v) list list \<Rightarrow> data \<Rightarrow> ('g, data) prog" where
  "add_truth lib [] graph s = (Inr graph, s)"
| "add_truth lib (truth_dict # rest) graph s =
     (case add_truth_items lib truth_dict graph s of
        (Inl e, s') \<Rightarrow> (Inl e, s')
      | (Inr graph', s') \<Rightarrow> add_truth lib rest graph' s')"

text \<open>\<open>_add_custom_labels\<close>: an error raised by a label function is not caught.\<close>

fun add_custom_labels :: "(string \<times> (data \<Rightarrow> exn + gval)) list \<Rightarrow> data \<Rightarrow> exn + data" where
  "add_custom_labels [] graph = Inr graph"
| "add_custom_labels ((key, fn) # rest) graph =
     (case fn graph of
        Inl e \<Rightarrow> Inl e
      | Inr v \<Rightarrow> add_custom_labels rest (graph(key \<mapsto> v)))"

text \<open>
  \<open>graph.x[:, index]\<close>: column \<open>index\<close> of the node tensor. A tensor of lower dimension
  has too few dimensions for the index (\<open>IndexError\<close>); a value that is not a tensor,
  or a missing \<open>x\<close> (the field reads as \<open>None\<close>), cannot be indexed so (\<open>TypeError\<close>).
\<close>

definition x_column :: "data \<Rightarrow> nat \<Rightarrow> exn + gval" where
  "x_column graph i =
     (case graph ''x'' of
        Some (Tensor2 a) \<Rightarrow>
          if i < ncols a then Inr (Tensor1 (map (\<lambda>r. r ! i) (rows a))) else Inl IndexError
      | Some (Tensor1 _) \<Rightarrow> Inl IndexError
      | Some (Tensor0 _) \<Rightarrow> Inl IndexError
      | Some (IntTensor0 _) \<Rightarrow> Inl IndexError
      | _ \<Rightarrow> Inl TypeError)"

fun add_features_loop :: "(nat \<times> string) list \<Rightarrow> data \<Rightarrow> ('g, data) prog" where
  "add_features_loop [] graph s = (Inr graph, s)"
| "add_features_loop ((i, feature) # rest) graph s =
     (if feature \<noteq> ''x'' then
        (case x_column graph i of
           Inl e \<Rightarrow> (Inl e, s)
         | Inr col \<Rightarrow> add_features_loop rest (graph(feature \<mapsto> col)) s)
      else add_features_loop rest graph (warning_once CannotAssignX s))"

definition add_features_individually :: "data \<Rightarrow> string list \<Rightarrow> ('g, data) prog" where
  "add_features_individually graph node_feature_names =
     add_features_loop (enumerate 0 node_feature_names)
       (graph(''features'' \<mapsto> StrList node_feature_names))"

section \<open>The entry point\<close>

text \<open>
  \<open>torch.tensor(input_features, dtype=self.dtype)\<close> and \<open>tensor.type(dtype)\<close>: a copy with
  every value converted to the dtype.
\<close>

definition as_tensor :: "(real \<Rightarrow> real) \<Rightarrow> 'a ndarray_scheme \<Rightarrow> ndarray" where
  "as_tensor cast a = \<lparr>ncols = ncols a, rows = map (map cast) (rows a)\<rparr>"

text \<open>
  \<open>graph.x.type(self.dtype)\<close>: any tensor is converted; a value without a \<open>type\<close>
  method, or a missing \<open>x\<close>, raises \<open>AttributeError\<close>.
\<close>

definition x_type :: "(real \<Rightarrow> real) \<Rightarrow> data \<Rightarrow> exn + gval" where
  "x_type cast graph =
     (case graph ''x'' of
        Some (Tensor2 a) \<Rightarrow> Inr (Tensor2 (as_tensor cast a))
      | Some (Tensor1 v) \<Rightarrow> Inr (Tensor1 (map cast v))
      | Some (Tensor0 r) \<Rightarrow> Inr (Tensor0 (cast r))
      | Some (IntTensor0 i) \<Rightarrow> Inr (Tensor0 (cast (of_int i)))
      | _ \<Rightarrow> Inl AttributeError)"

text \<open>\<open>torch.tensor(n, dtype=torch.int32)\<close>: a count that does not fit is refused.\<close>

definition int32_tensor :: "nat \<Rightarrow> exn + gval" where
  "int32_tensor n = (if n < 2 ^ 31 then Inr (IntTensor0 (int n)) else Inl RuntimeError)"

text \<open>
  The steps of \<open>forward\<close> after the node definition has built the graph: from
  "Enforce dtype" to the stamp.
\<close>

definition attach_fields ::
  "('g, 'v) library \<Rightarrow> graph_definition \<Rightarrow> ndarray \<Rightarrow> data \<Rightarrow> string list \<Rightarrow>
   (string \<times> 'v) list list option \<Rightarrow> (string \<times> (data \<Rightarrow> exn + gval)) list option \<Rightarrow>
   string option \<Rightarrow> real option \<Rightarrow> real option \<Rightarrow> string option \<Rightarrow> ('g, data) prog" where
  "attach_fields lib self input_features graph node_feature_names truth_dicts
       custom_label_functions loss_weight_column loss_weight loss_weight_default_value
       data_path =
     bind_se (lift_se (x_type (dtype self) graph)) (\<lambda>x.
     bind_se (lift_se (int32_tensor (length (rows input_features)))) (\<lambda>n.
     bind_se (case the_edge_definition self of
                Some edge_definition \<Rightarrow>
                  lift_se (edge_definition (graph(''x'' \<mapsto> x, ''n_pulses'' \<mapsto> n)))
              | None \<Rightarrow>
                  (\<lambda>s. (Inr (graph(''x'' \<mapsto> x, ''n_pulses'' \<mapsto> n)),
                         warning_once NoEdgeDefinition s))) (\<lambda>graph1.
     bind_se (lift_se (add_loss_weights self
                (case data_path of
                   None \<Rightarrow> graph1
                 | Some path \<Rightarrow> graph1(''dataset_path'' \<mapsto> Str path))
                loss_weight_column loss_weight loss_weight_default_value)) (\<lambda>graph2.
     bind_se (case truth_dicts of
                None \<Rightarrow> lift_se (Inr graph2)
              | Some ds \<Rightarrow> add_truth lib ds graph2) (\<lambda>graph3.
     bind_se (case custom_label_functions of
                None \<Rightarrow> lift_se (Inr graph3)
              | Some fns \<Rightarrow> lift_se (add_custom_labels fns graph3)) (\<lambda>graph4.
     bind_se (add_features_individually graph4 node_feature_names) (\<lambda>graph5.
     lift_se (Inr (graph5(''graph_definition'' \<mapsto> Str (class_name self)))))))))))"

text \<open>
  \<open>forward\<close>: validation, perturbation of the caller's array, the tensor in the
  configured dtype, the detector, the node definition, then the fields.
\<close>

definition forward ::
  "('g, 'v) library \<Rightarrow> graph_definition \<Rightarrow> nat \<Rightarrow> string list \<Rightarrow>
   (string \<times> 'v) list list option \<Rightarrow> (string \<times> (data \<Rightarrow> exn + gval)) list option \<Rightarrow>
   string option \<Rightarrow> real option \<Rightarrow> real option \<Rightarrow> string option \<Rightarrow> ('g, data) prog" where
  "forward lib self input_features names truth_dicts custom_label_functions
       loss_weight_column loss_weight loss_weight_default_value data_path =
     bind_se (\<lambda>s. (validate_input self (heap s input_features) names, s)) (\<lambda>_.
     bind_se (perturb_input lib self input_features) (\<lambda>ref.
     bind_se (\<lambda>s. (Inr (as_tensor (dtype self) (heap s ref)), s)) (\<lambda>tensor.
     bind_se (lift_se (standardize (the_detector self) tensor names)) (\<lambda>standardized.
     bind_se (lift_se (nd_call (the_node_definition self) (input_feature_names self)
                         standardized)) (\<lambda>(graph, node_feature_names).
     attach_fields lib self standardized graph node_feature_names truth_dicts
       custom_label_functions loss_weight_column loss_weight loss_weight_default_value
       data_path)))))"

section \<open>The contract of truth attachment\<close>

text \<open>
  What the contract of \<open>_add_truth\<close> describes, written apart from the loops: the pairs
  that are attached (those whose value converts, in the order of the dictionaries),
  the diagnostics for the pairs that are skipped (key and type name), and the
  condition that every failing conversion is a \<open>TypeError\<close>.
\<close>

definition attached :: "('g, 'v) library \<Rightarrow> (string \<times> 'v) list \<Rightarrow> (string \<times> gval) list" where
  "attached lib items =
     List.map_filter
       (\<lambda>(key, v). case torch_tensor lib v of Inr t \<Rightarrow> Some (key, t) | Inl e \<Rightarrow> None) items"

definition skipped :: "('g, 'v) library \<Rightarrow> (string \<times> 'v) list \<Rightarrow> (level \<times> message) list" where
  "skipped lib items =
     map (\<lambda>(key, v). (DEBUG, CouldNotAssign key (type_name lib v)))
       (filter (\<lambda>(key, v). torch_tensor lib v = Inl TypeError) items)"

definition only_type_errors :: "('g, 'v) library \<Rightarrow> (string \<times> 'v) list \<Rightarrow> bool" where
  "only_type_errors lib items =
     list_all (\<lambda>(key, v). case torch_tensor lib v of Inl e \<Rightarrow> e = TypeError | Inr t \<Rightarrow> True)
       items"

section \<open>Concrete inputs\<close>

text \<open>
  Inputs on which the theorems below are exercised. Truth values are Python scalars;
  \<open>torch.tensor\<close> converts a number, raises \<open>TypeError\<close> on a \<open>str\<close>, and raises
  \<open>RuntimeError\<close> on \<open>None\<close> (no dtype can be inferred) and on an integer outside
  64 bits. The example generator is a counter; the example detector leaves the tensor
  as it is; the node definition is the pass-through one (one node per row). The
  example table is a writeable float64 array.
\<close>

datatype pyval = PyNone | PyInt int | PyFloat real | PyStr string

definition example_library :: "(nat, pyval) library" where
  "example_library =
     \<lparr>default_rng = (\<lambda>seed. if seed < 0 then Inl ValueError else Inr (nat seed)),
      normal = (\<lambda>g loc scale.
                  if list_all (\<lambda>sd. 0 \<le> sd) scale
                  then (Inr (map (\<lambda>r. map2 (\<lambda>x sd. x + sd * real (Suc g)) r scale) loc), Suc g)
                  else (Inl ValueError, g)),
      torch_tensor = (\<lambda>v. case v of
                        PyNone \<Rightarrow> Inl RuntimeError
                      | PyInt i \<Rightarrow> if - (2 ^ 63) \<le> i \<and> i < 2 ^ 63 then Inr (IntTensor0 i)
                                   else Inl RuntimeError
                      | PyFloat r \<Rightarrow> Inr (Tensor0 r)
                      | PyStr _ \<Rightarrow> Inl TypeError),
      type_name = (\<lambda>v. case v of
                     PyNone \<Rightarrow> ''NoneType'' | PyInt _ \<Rightarrow> ''int''
                   | PyFloat _ \<Rightarrow> ''float'' | PyStr _ \<Rightarrow> ''str'')\<rparr>"

definition example_detector :: detector where
  "example_detector =
     \<lparr>feature_map_keys = [''x1'', ''x2'', ''x3''], standardize = (\<lambda>t names. Inr t)\<rparr>"

definition pass_through :: node_definition where
  "pass_through =
     \<lparr>nd_nb_outputs = length,
      nd_call = (\<lambda>names t. Inr (Map.empty(''x'' \<mapsto> Tensor2 t), names))\<rparr>"

definition example_args :: "nat init_args" where
  "example_args =
     \<lparr>arg_detector = example_detector, arg_node_definition = pass_through,
      arg_edge_definition = None, arg_input_feature_names = None, arg_dtype = (\<lambda>v. v),
      arg_perturbation_dict = None, arg_seed = Some (SeedInt 7),
      arg_class_name = ''GraphDefinition''\<rparr>"

definition example_self :: graph_definition where
  "example_self =
     \<lparr>the_detector = example_detector, the_edge_definition = None,
      the_node_definition = pass_through, perturbation_dict = None,
      input_feature_names = [''x1'', ''x2'', ''x3''], dtype = (\<lambda>v. v),
      nb_inputs = 3, nb_outputs = 3, perturbation_cols = None,
      loss_weight_default_value_attr = None, class_name = ''GraphDefinition''\<rparr>"

definition example_table :: nparray where
  "example_table =
     \<lparr>ncols = 3, rows = [[1, 2, 3], [4, 5, 6]], store_as = (\<lambda>v. v), writeable = True\<rparr>"

definition example_state :: "nat state" where
  "example_state =
     \<lparr>rng = 7, heap = (\<lambda>_. example_table), warned_once = [], emitted = []\<rparr>"

definition example_perturbed_args :: "nat init_args" where
  "example_perturbed_args = example_args\<lparr>arg_perturbation_dict := Some [(''x2'', 1 / 2)]\<rparr>"

definition example_perturbed_self :: graph_definition where
  "example_perturbed_self =
     example_self\<lparr>perturbation_dict := Some [(''x2'', 1 / 2)], perturbation_cols := Some [1]\<rparr>"

definition example_state_other :: "nat state" where
  "example_state_other =
     \<lparr>rng = 7,
      heap = (\<lambda>r. if r = 1 then example_table
                  else \<lparr>ncols = 0, rows = [], store_as = (\<lambda>v. v), writeable = True\<rparr>),
      warned_once = [NoEdgeDefinition], emitted = [(WARNING, NoEdgeDefinition)]\<rparr>"

definition example_graph :: data where
  "example_graph = Map.empty(''x'' \<mapsto> Tensor2 \<lparr>ncols = 2, rows = [[1, 2], [3, 4]]\<rparr>)"

definition example_truth_dicts :: "(string \<times> pyval) list list" where
  "example_truth_dicts =
     [[(''a'', PyInt 1), (''name'', PyStr ''mu'')], [(''a'', PyInt 2), (''b'', PyInt 3)]]"

text \<open>
  The conversion to \<open>torch.float32\<close>, the default dtype of the constructor, for values
  in the normal range of float32: 24 significant binary digits, rounded to the
  nearest value, ties to the even one. \<open>binary_exponent v\<close> is the exponent \<open>e\<close> with
  \<open>2 ^ e \<le> \<bar>v\<bar> < 2 ^ (e + 1)\<close>. Overflow to infinity and subnormal values are not
  covered.
\<close>

definition round_half_even :: "real \<Rightarrow> int" where
  "round_half_even x =
     (let f = \<lfloor>x\<rfloor>
      in if x - of_int f < 1 / 2 then f
         else if 1 / 2 < x - of_int f then f + 1
         else if even f then f else f + 1)"

definition binary_exponent :: "real \<Rightarrow> int" where
  "binary_exponent v =
     (if 1 \<le> \<bar>v\<bar> then int (floorlog 2 (nat \<lfloor>\<bar>v\<bar>\<rfloor>)) - 1
      else - int (floorlog 2 (nat \<lceil>1 / \<bar>v\<bar>\<rceil> - 1)))"

definition to_float32 :: "real \<Rightarrow> real" where
  "to_float32 v =
     (if v = 0 then 0
      else let e = binary_exponent v - 23;
               q = (if 0 \<le> e then 2 ^ nat e else 1 / 2 ^ nat (- e))
           in q * of_int (round_half_even (v / q)))"

text \<open>
  An object with one input feature and the default dtype, and a float64 table holding
  \<open>2 ^ 24 + 1\<close>, which is not a float32.
\<close>

definition example_float32_args :: "nat init_args" where
  "example_float32_args =
     example_args\<lparr>arg_input_feature_names := Some [''charge''], arg_dtype := to_float32\<rparr>"

definition example_float32_self :: graph_definition where
  "example_float32_self =
     example_self\<lparr>input_feature_names := [''charge''], dtype := to_float32,
       nb_inputs := 1, nb_outputs := 1\<rparr>"

definition example_float32_state :: "nat state" where
  "example_float32_state =
     \<lparr>rng = 7,
      heap = (\<lambda>_. \<lparr>ncols = 1, rows = [[16777217]], store_as = (\<lambda>v. v), writeable = True\<rparr>),
      warned_once = [], emitted = []\<rparr>"

text \<open>
  Two more tables with the values of the example table: an int64 array (assignment
  truncates towards zero; overflow is not covered) and a read-only float64 array.
\<close>

definition to_int64 :: "real \<Rightarrow> real" where
  "to_int64 v = of_int (if 0 \<le> v then \<lfloor>v\<rfloor> else \<lceil>v\<rceil>)"

definition example_int64_state :: "nat state" where
  "example_int64_state =
     \<lparr>rng = 0, heap = (\<lambda>_. example_table\<lparr>store_as := to_int64\<rparr>),
      warned_once = [], emitted = []\<rparr>"

definition example_read_only_state :: "nat state" where
  "example_read_only_state =
     \<lparr>rng = 0, heap = (\<lambda>_. example_table\<lparr>writeable := False\<rparr>),
      warned_once = [], emitted = []\<rparr>"

section \<open>Properties of construction\<close>

lemma init_example: "init example_library example_args fresh = Inr (example_self, 7)"
  by (simp add: init_def init_members_def init_rng_def resolve_names_def Let_def
        example_library_def example_args_def example_self_def
        example_detector_def pass_through_def)

lemma init_example_perturbed:
  "init example_library example_perturbed_args fresh = Inr (example_perturbed_self, 7)"
  by (simp add: init_def init_members_def init_rng_def resolve_names_def Let_def
        example_library_def example_args_def example_self_def example_detector_def
        pass_through_def example_perturbed_args_def example_perturbed_self_def)

lemma init_Inr_fields:
  assumes "init lib args fresh = Inr (self, g)"
  shows "input_feature_names self
           = resolve_names (arg_detector args) (arg_input_feature_names args)"
    and "perturbation_dict self = arg_perturbation_dict args"
    and "loss_weight_default_value_attr self = None"
    and "arg_perturbation_dict args = None \<Longrightarrow> perturbation_cols self = None"
    and "arg_perturbation_dict args = Some d \<Longrightarrow>
           \<exists>cols. index_all (input_feature_names self) (map fst d) = Inr cols
              \<and> perturbation_cols self = Some cols"
  using assms
  by (auto simp: init_def init_members_def init_rng_def Let_def
      split: option.splits sum.splits seed.splits)

lemma index_absent: "k \<notin> set xs \<Longrightarrow> index xs k = Inl ValueError"
  by (induction xs) auto

lemma index_present:
  "k \<in> set xs \<Longrightarrow> \<exists>i. index xs k = Inr i \<and> i < length xs \<and> xs ! i = k \<and> (\<forall>j < i. xs ! j \<noteq> k)"
proof (induction xs)
  case Nil
  then show ?case by simp
next
  case (Cons x xs)
  show ?case
  proof (cases "x = k")
    case True
    then show ?thesis by simp
  next
    case False
    with Cons.prems have "k \<in> set xs" by simp
    from Cons.IH [OF this] obtain i where
      i: "index xs k = Inr i" "i < length xs" "xs ! i = k" "\<forall>j < i. xs ! j \<noteq> k"
      by blast
    have "\<forall>j < Suc i. (x # xs) ! j \<noteq> k"
      using False i(4) by (simp add: nth_Cons split: nat.splits)
    with False i show ?thesis by simp
  qed
qed

lemma index_all_absent:
  "\<not> set keys \<subseteq> set names \<Longrightarrow> index_all names keys = Inl ValueError"
proof (induction keys)
  case Nil
  then show ?case by simp
next
  case (Cons k keys)
  show ?case
  proof (cases "k \<in> set names")
    case False
    then show ?thesis by (simp add: index_absent)
  next
    case True
    with Cons.prems have "\<not> set keys \<subseteq> set names" by simp
    from Cons.IH [OF this] index_present [OF True] show ?thesis by auto
  qed
qed

lemma index_all_present:
  "set keys \<subseteq> set names \<Longrightarrow>
   \<exists>cols. index_all names keys = Inr cols \<and> length cols = length keys
     \<and> (\<forall>j < length keys. cols ! j < length names \<and> names ! (cols ! j) = keys ! j
            \<and> (\<forall>i < cols ! j. names ! i \<noteq> keys ! j))"
proof (induction keys)
  case Nil
  then show ?case by simp
next
  case (Cons k keys)
  then have "k \<in> set names" and "set keys \<subseteq> set names" by simp_all
  from index_present [OF this(1)] obtain c where
    c: "index names k = Inr c" "c < length names" "names ! c = k" "\<forall>i < c. names ! i \<noteq> k"
    by blast
  from Cons.IH [OF \<open>set keys \<subseteq> set names\<close>] obtain cols where
    cols: "index_all names keys = Inr cols" "length cols = length keys"
      "\<forall>j < length keys. cols ! j < length names \<and> names ! (cols ! j) = keys ! j
            \<and> (\<forall>i < cols ! j. names ! i \<noteq> keys ! j)"
    by blast
  have "\<forall>j < length (k # keys). (c # cols) ! j < length names
          \<and> names ! ((c # cols) ! j) = (k # keys) ! j
          \<and> (\<forall>i < (c # cols) ! j. names ! i \<noteq> (k # keys) ! j)"
    using c cols(3) by (auto simp: nth_Cons split: nat.splits)
  with c(1) cols(1,2) show ?case by simp
qed

lemma init_unresolved:
  assumes "arg_perturbation_dict args = Some d"
    and "\<not> fst ` set d \<subseteq> set (resolve_names (arg_detector args) (arg_input_feature_names args))"
  shows "init lib args fresh = Inl ValueError"
proof -
  from assms(2) have "index_all (resolve_names (arg_detector args) (arg_input_feature_names args))
      (map fst d) = Inl ValueError"
    by (intro index_all_absent) simp
  with assms(1) show ?thesis
    by (simp add: init_def init_members_def init_rng_def Let_def)
qed

lemma init_unseeded:
  assumes "arg_perturbation_dict args = Some d" and "arg_seed args = None"
    and "fst ` set d \<subseteq> set (resolve_names (arg_detector args) (arg_input_feature_names args))"
  shows "\<exists>self. init lib args fresh = Inr (self, fresh)"
proof -
  from assms(3) have "set (map fst d)
      \<subseteq> set (resolve_names (arg_detector args) (arg_input_feature_names args))"
    by simp
  from index_all_present [OF this] obtain cols where
    "index_all (resolve_names (arg_detector args) (arg_input_feature_names args)) (map fst d)
       = Inr cols"
    by blast
  with assms(1,2) show ?thesis
    by (simp add: init_def init_members_def init_rng_def Let_def)
qed

lemma index_all_Inr:
  assumes "index_all names keys = Inr cols"
  shows "length cols = length keys"
    and "\<forall>j < length keys. cols ! j < length names \<and> names ! (cols ! j) = keys ! j"
proof -
  have "set keys \<subseteq> set names"
  proof (rule ccontr)
    assume "\<not> set keys \<subseteq> set names"
    then have "index_all names keys = Inl ValueError"
      by (rule index_all_absent)
    with assms show False by simp
  qed
  from index_all_present [OF this] obtain cols' where
    c: "index_all names keys = Inr cols'" "length cols' = length keys"
      "\<forall>j < length keys. cols' ! j < length names \<and> names ! (cols' ! j) = keys ! j
            \<and> (\<forall>i < cols' ! j. names ! i \<noteq> keys ! j)"
    by blast
  from c(1) assms have eq: "cols' = cols" by simp
  from c(2) eq show "length cols = length keys" by simp
  from c(3) eq show "\<forall>j < length keys. cols ! j < length names \<and> names ! (cols ! j) = keys ! j"
    by blast
qed

lemma init_resolved:
  assumes "arg_perturbation_dict args = Some d" and ok: "init lib args fresh = Inr (self, g)"
  shows "\<exists>cols. perturbation_cols self = Some cols \<and> length cols = length d
                \<and> (\<forall>j < length d. cols ! j < length (input_feature_names self)
                       \<and> input_feature_names self ! (cols ! j) = fst (d ! j))"
proof -
  from init_Inr_fields(5) [OF ok assms(1)] obtain cols where
    cols: "index_all (input_feature_names self) (map fst d) = Inr cols"
      "perturbation_cols self = Some cols"
    by blast
  from index_all_Inr [OF cols(1)]
  have "length cols = length d \<and> (\<forall>j < length d. cols ! j < length (input_feature_names self)
                       \<and> input_feature_names self ! (cols ! j) = fst (d ! j))"
    by simp
  with cols(2) show ?thesis
    by blast
qed

text \<open>
  C9: a perturbation specification naming a feature that is not among the resolved
  input feature names makes \<open>__init__\<close> raise \<open>ValueError\<close>. When construction succeeds,
  the object holds one column index per perturbed feature, in the order of the
  specification, each the position of that feature among the input feature names;
  \<open>_perturb_input\<close> reads these stored indices. With every name present and no seed
  given, construction does succeed.
\<close>

theorem init_perturbation_cols:
  assumes "arg_perturbation_dict args = Some d"
  shows "(\<not> fst ` set d \<subseteq> set (resolve_names (arg_detector args) (arg_input_feature_names args))
            \<longrightarrow> init lib args fresh = Inl ValueError)
    \<and> (\<forall>self g. init lib args fresh = Inr (self, g) \<longrightarrow>
          input_feature_names self
            = resolve_names (arg_detector args) (arg_input_feature_names args)
          \<and> (\<exists>cols. perturbation_cols self = Some cols \<and> length cols = length d
                \<and> (\<forall>j < length d. cols ! j < length (input_feature_names self)
                       \<and> input_feature_names self ! (cols ! j) = fst (d ! j))))
    \<and> (fst ` set d \<subseteq> set (resolve_names (arg_detector args) (arg_input_feature_names args))
          \<and> arg_seed args = None
            \<longrightarrow> (\<exists>self. init lib args fresh = Inr (self, fresh)))"
proof -
  have 1: "\<not> fst ` set d \<subseteq> set (resolve_names (arg_detector args) (arg_input_feature_names args))
            \<longrightarrow> init lib args fresh = Inl ValueError"
    using init_unresolved [OF assms] by (rule impI)
  have 2: "\<forall>self g. init lib args fresh = Inr (self, g) \<longrightarrow>
          input_feature_names self
            = resolve_names (arg_detector args) (arg_input_feature_names args)
          \<and> (\<exists>cols. perturbation_cols self = Some cols \<and> length cols = length d
                \<and> (\<forall>j < length d. cols ! j < length (input_feature_names self)
                       \<and> input_feature_names self ! (cols ! j) = fst (d ! j)))"
  proof (intro allI impI conjI)
    fix self g
    assume ok: "init lib args fresh = Inr (self, g)"
    from ok show "input_feature_names self
            = resolve_names (arg_detector args) (arg_input_feature_names args)"
      by (rule init_Inr_fields(1))
    from assms ok show "\<exists>cols. perturbation_cols self = Some cols \<and> length cols = length d
                \<and> (\<forall>j < length d. cols ! j < length (input_feature_names self)
                       \<and> input_feature_names self ! (cols ! j) = fst (d ! j))"
      by (rule init_resolved)
  qed
  have 3: "fst ` set d \<subseteq> set (resolve_names (arg_detector args) (arg_input_feature_names args))
          \<and> arg_seed args = None
            \<longrightarrow> (\<exists>self. init lib args fresh = Inr (self, fresh))"
  proof
    assume a: "fst ` set d \<subseteq> set (resolve_names (arg_detector args) (arg_input_feature_names args))
          \<and> arg_seed args = None"
    show "\<exists>self. init lib args fresh = Inr (self, fresh)"
      by (rule init_unseeded [OF assms conjunct2 [OF a] conjunct1 [OF a]])
  qed
  from 1 2 3 show ?thesis
    by (intro conjI)
qed

theorem init_perturbation_cols_witness:
  "arg_perturbation_dict example_perturbed_args = Some [(''x2'', 1 / 2)]
   \<and> init example_library example_perturbed_args 0 = Inr (example_perturbed_self, 7)
   \<and> perturbation_cols example_perturbed_self = Some [1]
   \<and> input_feature_names example_perturbed_self ! 1 = ''x2''
   \<and> init example_library
        (example_perturbed_args\<lparr>arg_perturbation_dict := Some [(''energy'', 1)]\<rparr>) 0
      = Inl ValueError"
proof -
  have d: "arg_perturbation_dict example_perturbed_args = Some [(''x2'', 1 / 2)]"
    by (simp add: example_perturbed_args_def)
  have d': "arg_perturbation_dict
      (example_perturbed_args\<lparr>arg_perturbation_dict := Some [(''energy'', 1)]\<rparr>)
      = Some [(''energy'', 1)]"
    by simp
  have missing: "\<not> fst ` set [(''energy'', 1 :: real)]
      \<subseteq> set (resolve_names
          (arg_detector (example_perturbed_args\<lparr>arg_perturbation_dict := Some [(''energy'', 1)]\<rparr>))
          (arg_input_feature_names
             (example_perturbed_args\<lparr>arg_perturbation_dict := Some [(''energy'', 1)]\<rparr>)))"
    by (simp add: resolve_names_def example_perturbed_args_def example_args_def
          example_detector_def)
  from init_perturbation_cols [OF d', of example_library 0] missing
  have "init example_library
        (example_perturbed_args\<lparr>arg_perturbation_dict := Some [(''energy'', 1)]\<rparr>) 0
      = Inl ValueError"
    by blast
  moreover from init_perturbation_cols [OF d, of example_library 0]
    init_example_perturbed [of 0]
  have "\<exists>cols. perturbation_cols example_perturbed_self = Some cols \<and> length cols = 1
          \<and> input_feature_names example_perturbed_self ! (cols ! 0) = ''x2''"
    by fastforce
  moreover have "perturbation_cols example_perturbed_self = Some [1]"
    by (simp add: example_perturbed_self_def)
  ultimately show ?thesis
    using d init_example_perturbed [of 0] by auto
qed

section \<open>Validation and the fail-fast path\<close>

lemma check_order_eq:
  "check_order names expected idxs =
     (if \<forall>i \<in> set idxs. names ! i = expected ! i then Inr () else Inl AssertionError)"
  by (induction idxs) auto

lemma check_order_upt:
  assumes "length names = length expected"
  shows "check_order names expected [0..<length names] =
           (if names = expected then Inr () else Inl AssertionError)"
proof -
  have "(\<forall>i \<in> set [0..<length names]. names ! i = expected ! i)
        \<longleftrightarrow> (\<forall>i < length names. names ! i = expected ! i)"
    by auto
  also have "\<dots> \<longleftrightarrow> names = expected"
    using assms by (auto intro: nth_equalityI)
  finally show ?thesis
    unfolding check_order_eq by (rule if_cong) (rule refl)+
qed

lemma validate_input_eq:
  "validate_input self a names =
     (if ncols a = length names \<and> names = input_feature_names self then Inr ()
      else Inl AssertionError)"
proof (cases "length names = length (input_feature_names self)")
  case True
  show ?thesis
    unfolding validate_input_def check_order_upt [OF True] using True by simp
next
  case False
  then have "names \<noteq> input_feature_names self" by blast
  with False show ?thesis
    by (simp add: validate_input_def)
qed

text \<open>
  C2: validation succeeds exactly when the table's column count equals the number of
  column names, that number equals the number of configured input feature names, and
  the names agree position by position; otherwise it fails with the assertion's error,
  so any list of names other than the configured one (a permutation, an omission, a
  different count) is refused.
\<close>

theorem validate_input_iff:
  "(validate_input self a names = Inr () \<longleftrightarrow>
      ncols a = length names \<and> length names = length (input_feature_names self)
      \<and> (\<forall>i < length names. names ! i = input_feature_names self ! i))
   \<and> (validate_input self a names \<noteq> Inr () \<longrightarrow> validate_input self a names = Inl AssertionError)
   \<and> (names \<noteq> input_feature_names self \<longrightarrow> validate_input self a names = Inl AssertionError)"
proof -
  have "names = input_feature_names self \<longleftrightarrow>
      length names = length (input_feature_names self)
      \<and> (\<forall>i < length names. names ! i = input_feature_names self ! i)"
    by (rule list_eq_iff_nth_eq)
  then show ?thesis
    unfolding validate_input_eq by auto
qed

theorem validate_input_iff_witness:
  "validate_input example_self example_table [''x1'', ''x2'', ''x3''] = Inr ()
   \<and> validate_input example_self example_table [''x2'', ''x1'', ''x3''] = Inl AssertionError
   \<and> validate_input example_self example_table [''x1'', ''x2''] = Inl AssertionError"
proof -
  have ok: "ncols example_table = length [''x1'', ''x2'', ''x3'']
      \<and> length [''x1'', ''x2'', ''x3''] = length (input_feature_names example_self)
      \<and> (\<forall>i < length [''x1'', ''x2'', ''x3''].
            [''x1'', ''x2'', ''x3''] ! i = input_feature_names example_self ! i)"
    by (simp add: example_self_def example_table_def)
  have permuted: "[''x2'', ''x1'', ''x3''] \<noteq> input_feature_names example_self"
    by (simp add: example_self_def)
  have omitted: "[''x1'', ''x2''] \<noteq> input_feature_names example_self"
    by (simp add: example_self_def)
  from ok validate_input_iff [of example_self example_table "[''x1'', ''x2'', ''x3'']"]
  have "validate_input example_self example_table [''x1'', ''x2'', ''x3''] = Inr ()"
    by blast
  moreover from permuted
    validate_input_iff [of example_self example_table "[''x2'', ''x1'', ''x3'']"]
  have "validate_input example_self example_table [''x2'', ''x1'', ''x3''] = Inl AssertionError"
    by blast
  moreover from omitted validate_input_iff [of example_self example_table "[''x1'', ''x2'']"]
  have "validate_input example_self example_table [''x1'', ''x2''] = Inl AssertionError"
    by blast
  ultimately show ?thesis by blast
qed

text \<open>
  C3: when validation fails, \<open>forward\<close> returns the validation error and no graph, and
  the state is the one it was called in: the generator has not been advanced, the
  caller's array is unchanged and no message was emitted. The outcome is the same for
  any library, detector, node definition and edge definition: none of them runs.
\<close>

theorem forward_validation_failure:
  "validate_input self (heap s input_features) names \<noteq> Inr () \<Longrightarrow>
   forward lib self input_features names truth_dicts custom_label_functions
     loss_weight_column loss_weight loss_weight_default_value data_path s
   = (Inl AssertionError, s)
   \<and> forward lib' (self\<lparr>the_detector := d, the_node_definition := nd, the_edge_definition := ed\<rparr>)
       input_features names truth_dicts custom_label_functions
       loss_weight_column loss_weight loss_weight_default_value data_path s
   = (Inl AssertionError, s)"
proof -
  assume a: "validate_input self (heap s input_features) names \<noteq> Inr ()"
  then have e: "validate_input self (heap s input_features) names = Inl AssertionError"
    using validate_input_eq [of self "heap s input_features" names]
    by (simp split: if_splits)
  have v: "validate_input (self\<lparr>the_detector := d, the_node_definition := nd, the_edge_definition := ed\<rparr>) a n
      = validate_input self a n" for a n
    by (simp add: validate_input_def)
  show ?thesis
    by (simp add: forward_def bind_se_def e v)
qed

theorem forward_validation_failure_witness:
  "validate_input example_self (heap example_state 0) [''x2'', ''x1'', ''x3''] \<noteq> Inr ()
   \<and> forward example_library example_self 0 [''x2'', ''x1'', ''x3''] None None None None None
       None example_state = (Inl AssertionError, example_state)"
proof -
  have "[''x2'', ''x1'', ''x3''] \<noteq> input_feature_names example_self"
    by (simp add: example_self_def)
  then have bad:
    "validate_input example_self (heap example_state 0) [''x2'', ''x1'', ''x3''] \<noteq> Inr ()"
    by (simp add: validate_input_eq)
  from forward_validation_failure [OF bad] bad show ?thesis
    by blast
qed

section \<open>Loss weights\<close>

lemma bind_se_fails:
  assumes "\<And>a s. \<exists>e s'. f a s = (Inl e, s')"
  shows "\<exists>e s'. bind_se m f s = (Inl e, s')"
proof (cases "m s")
  case (Pair r s1)
  show ?thesis
  proof (cases r)
    case (Inl e)
    with Pair show ?thesis by (simp add: bind_se_def)
  next
    case (Inr a)
    with Pair assms [of a s1] show ?thesis by (simp add: bind_se_def)
  qed
qed

lemma bind_se_fails_first:
  assumes "\<And>s. \<exists>e s'. m s = (Inl e, s')"
  shows "\<exists>e s'. bind_se m f s = (Inl e, s')"
  using assms [of s] by (auto simp: bind_se_def)

lemma attach_fields_missing_default:
  assumes "w < 0"
  shows "\<exists>e s'. attach_fields lib self t graph names truth_dicts custom_label_functions
           (Some col) (Some w) None data_path s = (Inl e, s')"
proof -
  have l: "add_loss_weights self g (Some col) (Some w) None = Inl ValueError" for g
    using assms by (simp add: add_loss_weights_def)
  show ?thesis
    unfolding attach_fields_def l
    by (intro bind_se_fails bind_se_fails_first) (simp add: lift_se_def)
qed

lemma forward_missing_default:
  assumes "w < 0"
  shows "\<exists>e s'. forward lib self input_features names truth_dicts custom_label_functions
           (Some col) (Some w) None data_path s = (Inl e, s')"
  unfolding forward_def
  by (intro bind_se_fails) (simp add: attach_fields_missing_default [OF assms] split: prod.splits)

text \<open>
  C8: with a negative loss weight, a column name and no default value,
  \<open>_add_loss_weights\<close> raises \<open>ValueError\<close>, and \<open>forward\<close> with these arguments never
  returns a graph; when the loss weight or the column name is absent,
  \<open>_add_loss_weights\<close> returns the graph as it was: no field is attached and nothing
  is raised.
\<close>

theorem add_loss_weights_missing:
  "(w < 0 \<longrightarrow>
      add_loss_weights self graph (Some col) (Some w) None = Inl ValueError
      \<and> (\<exists>e s'. forward lib self input_features names truth_dicts custom_label_functions
             (Some col) (Some w) None data_path s = (Inl e, s')))
   \<and> add_loss_weights self graph None loss_weight d = Inr graph
   \<and> add_loss_weights self graph loss_weight_column None d = Inr graph"
proof (intro conjI impI)
  assume w: "w < 0"
  then show "add_loss_weights self graph (Some col) (Some w) None = Inl ValueError"
    by (simp add: add_loss_weights_def)
  from w show "\<exists>e s'. forward lib self input_features names truth_dicts
      custom_label_functions (Some col) (Some w) None data_path s = (Inl e, s')"
    by (rule forward_missing_default)
next
  show "add_loss_weights self graph None loss_weight d = Inr graph"
    by (simp add: add_loss_weights_def split: option.splits)
next
  show "add_loss_weights self graph loss_weight_column None d = Inr graph"
    by (simp add: add_loss_weights_def)
qed

theorem add_loss_weights_missing_witness:
  "(- 1 :: real) < 0
   \<and> add_loss_weights example_self Map.empty (Some ''w'') (Some (- 1)) None = Inl ValueError
   \<and> (\<exists>e s'. forward example_library example_self 0 [''x1'', ''x2'', ''x3''] None None
          (Some ''w'') (Some (- 1)) None None example_state = (Inl e, s'))"
proof -
  have w: "(- 1 :: real) < 0"
    by simp
  from add_loss_weights_missing [where w = "- 1" and self = example_self
      and graph = Map.empty and col = "''w''" and lib = example_library
      and input_features = 0 and names = "[''x1'', ''x2'', ''x3'']" and truth_dicts = None
      and custom_label_functions = None and data_path = None and s = example_state] w
  show ?thesis
    by blast
qed

section \<open>Frame of the logging primitives\<close>

lemma warning_once_frame [simp]:
  "rng (warning_once m s) = rng s" "heap (warning_once m s) = heap s"
  by (simp_all add: warning_once_def)

lemma debug_frame [simp]:
  "rng (debug m s) = rng s" "heap (debug m s) = heap s" "warned_once (debug m s) = warned_once s"
  by (simp_all add: debug_def)

section \<open>Seeded construction\<close>

lemma init_rng_seeded: "init_rng lib (Some (SeedInt n)) fresh = default_rng lib n"
  by (simp add: init_rng_def)

lemma init_seeded:
  assumes "arg_seed args = Some (SeedInt n)"
  shows "init lib args fresh1 = init lib args fresh2"
  unfolding init_def assms init_rng_seeded by (rule refl)

lemma perturb_input_cong:
  assumes "rng s1 = rng s2" and "heap s1 ref1 = heap s2 ref2"
  shows "((\<exists>e. fst (perturb_input lib self ref1 s1) = Inl e
              \<and> fst (perturb_input lib self ref2 s2) = Inl e)
          \<or> (fst (perturb_input lib self ref1 s1) = Inr ref1
              \<and> fst (perturb_input lib self ref2 s2) = Inr ref2))
       \<and> heap (snd (perturb_input lib self ref1 s1)) ref1
           = heap (snd (perturb_input lib self ref2 s2)) ref2
       \<and> rng (snd (perturb_input lib self ref1 s1)) = rng (snd (perturb_input lib self ref2 s2))"
  using assms
  by (simp add: perturb_input_def Let_def split: option.splits sum.splits prod.splits)

text \<open>
  C5: two objects constructed from the same arguments with the same integer seed are
  equal and start from the same generator, whatever the system entropy at either
  construction. Called on arrays with equal contents, \<open>_perturb_input\<close> then has the
  same outcome, leaves the same perturbed table and the same generator state, also
  when the two objects have logged different things and the arrays are different
  objects.
\<close>

theorem seeded_perturbation_deterministic:
  assumes seed: "arg_seed args = Some (SeedInt n)"
    and c1: "init lib args fresh1 = Inr (self1, g1)"
    and c2: "init lib args fresh2 = Inr (self2, g2)"
    and r1: "rng s1 = g1" and r2: "rng s2 = g2"
    and h: "heap s1 ref1 = heap s2 ref2"
  shows "self1 = self2 \<and> g1 = g2
       \<and> ((\<exists>e. fst (perturb_input lib self1 ref1 s1) = Inl e
              \<and> fst (perturb_input lib self2 ref2 s2) = Inl e)
          \<or> (fst (perturb_input lib self1 ref1 s1) = Inr ref1
              \<and> fst (perturb_input lib self2 ref2 s2) = Inr ref2))
       \<and> heap (snd (perturb_input lib self1 ref1 s1)) ref1
           = heap (snd (perturb_input lib self2 ref2 s2)) ref2
       \<and> rng (snd (perturb_input lib self1 ref1 s1))
           = rng (snd (perturb_input lib self2 ref2 s2))"
proof -
  from init_seeded [OF seed, of lib fresh1 fresh2] c1 c2
  have same: "self1 = self2" "g1 = g2"
    by simp_all
  from r1 r2 same(2) have "rng s1 = rng s2"
    by simp
  from perturb_input_cong [OF this h, of lib self1] same show ?thesis
    by simp
qed

theorem seeded_perturbation_deterministic_witness:
  "arg_seed example_perturbed_args = Some (SeedInt 7)
   \<and> init example_library example_perturbed_args 0 = Inr (example_perturbed_self, 7)
   \<and> init example_library example_perturbed_args 99 = Inr (example_perturbed_self, 7)
   \<and> rng example_state = 7 \<and> rng example_state_other = 7
   \<and> heap example_state 0 = heap example_state_other 1
   \<and> heap (snd (perturb_input example_library example_perturbed_self 0 example_state)) 0
       = heap (snd (perturb_input example_library example_perturbed_self 1
                      example_state_other)) 1"
proof -
  have seed: "arg_seed example_perturbed_args = Some (SeedInt 7)"
    by (simp add: example_perturbed_args_def example_args_def)
  have r1: "rng example_state = 7" and r2: "rng example_state_other = 7"
    by (simp_all add: example_state_def example_state_other_def)
  have h: "heap example_state 0 = heap example_state_other 1"
    by (simp add: example_state_def example_state_other_def)
  from seeded_perturbation_deterministic
    [OF seed init_example_perturbed [of 0] init_example_perturbed [of 99] r1 r2 h]
  have "heap (snd (perturb_input example_library example_perturbed_self 0 example_state)) 0
       = heap (snd (perturb_input example_library example_perturbed_self 1
                      example_state_other)) 1"
    by blast
  with seed r1 r2 h init_example_perturbed [of 0] init_example_perturbed [of 99]
  show ?thesis
    by blast
qed

section \<open>The default loss weight\<close>

text \<open>
  C1: the documented behaviour is that a negative loss weight is replaced by the
  \<open>loss_weight_default_value\<close> passed to the call. In the code the value passed has
  no influence on the result (only whether it is \<open>None\<close>): the attribute
  \<open>self._loss_weight_default_value\<close> is read instead, which \<open>__init__\<close> never sets. On the
  object built by \<open>__init__\<close>, with \<open>loss_weight = -1\<close>, \<open>loss_weight_column = "w"\<close> and
  \<open>loss_weight_default_value = 0.5\<close>, \<open>_add_loss_weights\<close> raises \<open>AttributeError\<close>, and
  so does \<open>forward\<close> on a valid table.
\<close>

theorem forward_failing_default:
  "add_loss_weights self graph loss_weight_column loss_weight (Some d1)
     = add_loss_weights self graph loss_weight_column loss_weight (Some d2)
   \<and> init example_library example_args 0 = Inr (example_self, 7)
   \<and> add_loss_weights example_self Map.empty (Some ''w'') (Some (- 1)) (Some (1 / 2))
       = Inl AttributeError
   \<and> fst (forward example_library example_self 0 [''x1'', ''x2'', ''x3''] None None
            (Some ''w'') (Some (- 1)) (Some (1 / 2)) None example_state) = Inl AttributeError"
proof -
  have v: "validate_input example_self (heap example_state 0) [''x1'', ''x2'', ''x3''] = Inr ()"
    by (simp add: validate_input_eq example_self_def example_state_def example_table_def)
  have p: "perturb_input example_library example_self 0 example_state = (Inr 0, example_state)"
    by (simp add: perturb_input_def example_self_def)
  have l: "add_loss_weights example_self g (Some ''w'') (Some (- 1)) (Some (1 / 2))
       = Inl AttributeError" for g
    by (simp add: add_loss_weights_def example_self_def)
  have i: "add_loss_weights self graph loss_weight_column loss_weight (Some d1)
     = add_loss_weights self graph loss_weight_column loss_weight (Some d2)"
    by (simp add: add_loss_weights_def split: option.splits)
  have f: "fst (forward example_library example_self 0 [''x1'', ''x2'', ''x3''] None None
            (Some ''w'') (Some (- 1)) (Some (1 / 2)) None example_state) = Inl AttributeError"
    apply (simp add: forward_def bind_se_def lift_se_def v p)
    apply (simp add: example_self_def example_detector_def pass_through_def
        attach_fields_def bind_se_def lift_se_def x_type_def as_tensor_def int32_tensor_def
        example_state_def example_table_def add_loss_weights_def)
    done
  from i init_example [of 0] l [of Map.empty] f show ?thesis
    by (intro conjI)
qed

section \<open>Perturbation of the input\<close>

lemma length_put_row [simp]: "length (put_row r cols vs) = length r"
  by (induction r cols vs rule: put_row.induct) simp_all

lemma put_row_other: "c \<notin> set cols \<Longrightarrow> put_row r cols vs ! c = r ! c"
  by (induction r cols vs rule: put_row.induct) simp_all


lemma perturb_input_None:
  "perturbation_dict self = None \<Longrightarrow> perturb_input lib self input_features s = (Inr input_features, s)"
  by (simp add: perturb_input_def)

lemma perturb_input_Some:
  assumes "perturbation_dict self = Some d"
    and "perturb_input lib self input_features s = (Inr r, s')"
  shows "\<exists>cols samples g.
      perturbation_cols self = Some cols
      \<and> list_all (\<lambda>c. c < ncols (heap s input_features)) cols
      \<and> normal lib (rng s) (map (\<lambda>r. map (\<lambda>c. r ! c) cols) (rows (heap s input_features)))
            (map snd d) = (Inr samples, g)
      \<and> length samples = length (rows (heap s input_features))
      \<and> list_all (\<lambda>v. length v = length cols) samples
      \<and> writeable (heap s input_features)
      \<and> r = input_features
      \<and> s' = (warning_once (WillPerturb (map fst d) (map snd d)) s)
            \<lparr>rng := g,
             heap := (heap s)(input_features := (heap s input_features)
                \<lparr>rows := map2 (\<lambda>r v. put_row r cols (map (store_as (heap s input_features)) v))
                          (rows (heap s input_features)) samples\<rparr>)\<rparr>"
  using assms
  by (auto simp: perturb_input_def Let_def take_columns_def put_columns_def
      split: option.splits sum.splits prod.splits if_splits)

lemma cols_named:
  assumes ok: "init lib args fresh = Inr (self, g)"
    and d: "perturbation_dict self = Some d"
    and cols: "perturbation_cols self = Some cols"
  shows "length cols = length d"
    and "\<forall>j < length d. input_feature_names self ! (cols ! j) = fst (d ! j)"
proof -
  from init_Inr_fields(2) [OF ok] d have "arg_perturbation_dict args = Some d"
    by simp
  from init_resolved [OF this ok] cols
  show "length cols = length d"
    and "\<forall>j < length d. input_feature_names self ! (cols ! j) = fst (d ! j)"
    by auto
qed

lemma cols_in_spec:
  assumes ok: "init lib args fresh = Inr (self, g)"
    and d: "perturbation_dict self = Some d"
    and cols: "perturbation_cols self = Some cols"
    and c: "c \<in> set cols"
  shows "input_feature_names self ! c \<in> fst ` set d"
proof -
  from c obtain j where j: "j < length cols" "cols ! j = c"
    by (auto simp: in_set_conv_nth)
  from cols_named [OF ok d cols] j
  have "j < length d" and "input_feature_names self ! c = fst (d ! j)"
    by auto
  then show ?thesis
    by (metis image_eqI nth_mem)
qed


lemma heap_add_truth_items [simp]: "heap (snd (add_truth_items lib items graph s)) = heap s"
  by (induction items arbitrary: graph s) (auto split: sum.splits)

lemma heap_add_truth [simp]: "heap (snd (add_truth lib ds graph s)) = heap s"
proof (induction ds arbitrary: graph s)
  case Nil
  then show ?case by simp
next
  case (Cons d ds)
  show ?case
  proof (cases "add_truth_items lib d graph s")
    case (Pair r s')
    have "heap s' = heap s"
      using heap_add_truth_items [of lib d graph s] Pair by simp
    with Pair Cons.IH show ?thesis
      by (cases r) simp_all
  qed
qed

lemma heap_add_features_loop [simp]: "heap (snd (add_features_loop xs graph s)) = heap s"
proof (induction xs arbitrary: graph s)
  case Nil
  then show ?case by simp
next
  case (Cons x xs)
  obtain i feature where x: "x = (i, feature)"
    by (cases x)
  show ?case
    unfolding x by (simp add: Cons.IH split: sum.splits)
qed


lemma heap_lift_se [simp]: "heap (snd (lift_se r s)) = heap s"
  by (simp add: lift_se_def)



lemma forward_unperturbed:
  assumes "perturbation_dict self = None"
    and "validate_input self (heap s input_features) names = Inr ()"
  shows "forward lib self input_features names truth_dicts custom_label_functions
       loss_weight_column loss_weight loss_weight_default_value data_path s
     = bind_se (lift_se (standardize (the_detector self)
                  (as_tensor (dtype self) (heap s input_features)) names)) (\<lambda>standardized.
       bind_se (lift_se (nd_call (the_node_definition self) (input_feature_names self)
                  standardized)) (\<lambda>(graph, node_feature_names).
       attach_fields lib self standardized graph node_feature_names truth_dicts
         custom_label_functions loss_weight_column loss_weight loss_weight_default_value
         data_path)) s"
proof -
  have b1: "bind_se (\<lambda>s. (validate_input self (heap s input_features) names, s)) f s
      = f () s" for f :: "unit \<Rightarrow> ('a, data) prog"
    by (simp add: bind_se_def assms(2))
  have b2: "bind_se (perturb_input lib self input_features) f s = f input_features s"
    for f :: "nat \<Rightarrow> ('a, data) prog"
    by (simp add: bind_se_def perturb_input_None [OF assms(1)])
  have b3: "bind_se (\<lambda>s. (Inr (as_tensor (dtype self) (heap s input_features)), s)) f s
      = f (as_tensor (dtype self) (heap s input_features)) s"
    for f :: "ndarray \<Rightarrow> ('a, data) prog"
    by (simp add: bind_se_def)
  show ?thesis
    unfolding forward_def b1 b2 b3 by (rule refl)
qed

lemma as_tensor_shape [simp]:
  "ncols (as_tensor cast a) = ncols a" "rows (as_tensor cast a) = map (map cast) (rows a)"
  by (simp_all add: as_tensor_def)

lemma as_tensor_exact:
  assumes "\<forall>r \<in> set (rows a). \<forall>v \<in> set r. cast v = v"
  shows "rows (as_tensor cast a) = rows a"
proof -
  from assms have "map (map cast) (rows a) = rows a"
    by (simp add: map_idI)
  then show ?thesis
    by simp
qed

lemma perturb_example:
  "perturb_input example_library example_perturbed_self 0 example_state
   = (Inr 0, (warning_once (WillPerturb [''x2''] [1 / 2]) example_state)
        \<lparr>rng := 8, heap := (heap example_state)(0 := example_table\<lparr>rows := [[1, 6, 3], [4, 9, 6]]\<rparr>)\<rparr>)"
  by (simp add: perturb_input_def example_perturbed_self_def example_self_def Let_def
      take_columns_def put_columns_def example_library_def example_state_def
      example_table_def warning_once_def)

lemma perturb_input_untouched:
  assumes ok: "init lib args fresh = Inr (self, g)"
    and d: "perturbation_dict self = Some d"
    and run: "perturb_input lib self input_features s = (Inr r, s')"
  shows "r = input_features"
    and "ncols (heap s' input_features) = ncols (heap s input_features)"
    and "length (rows (heap s' input_features)) = length (rows (heap s input_features))"
    and "i < length (rows (heap s input_features)) \<Longrightarrow>
         input_feature_names self ! c \<notin> fst ` set d \<Longrightarrow>
         rows (heap s' input_features) ! i ! c = rows (heap s input_features) ! i ! c"
    and "r' \<noteq> input_features \<Longrightarrow> heap s' r' = heap s r'"
proof -
  from perturb_input_Some [OF d run] obtain cols samples g' where
    cols: "perturbation_cols self = Some cols"
    and len: "length samples = length (rows (heap s input_features))"
    and r: "r = input_features"
    and s': "s' = (warning_once (WillPerturb (map fst d) (map snd d)) s)
            \<lparr>rng := g',
             heap := (heap s)(input_features := (heap s input_features)
                \<lparr>rows := map2 (\<lambda>r v. put_row r cols (map (store_as (heap s input_features)) v))
                          (rows (heap s input_features)) samples\<rparr>)\<rparr>"
    by blast
  show "r = input_features" by (rule r)
  show "ncols (heap s' input_features) = ncols (heap s input_features)"
    by (simp add: s')
  show "length (rows (heap s' input_features)) = length (rows (heap s input_features))"
    by (simp add: s' len)
  show "heap s' r' = heap s r'" if "r' \<noteq> input_features"
    using that by (simp add: s')
  show "rows (heap s' input_features) ! i ! c = rows (heap s input_features) ! i ! c"
    if i: "i < length (rows (heap s input_features))"
      and c: "input_feature_names self ! c \<notin> fst ` set d"
  proof -
    from c cols_in_spec [OF ok d cols] have "c \<notin> set cols"
      by blast
    then have "put_row (rows (heap s input_features) ! i) cols
          (map (store_as (heap s input_features)) (samples ! i)) ! c
        = rows (heap s input_features) ! i ! c"
      by (rule put_row_other)
    with i len show ?thesis
      by (simp add: s')
  qed
qed

text \<open>
  C4 (as amended): without a perturbation specification \<open>_perturb_input\<close> returns the
  array it was given and changes nothing (array, generator, log); \<open>forward\<close> then hands
  to the detector the input table converted to the configured dtype: same shape,
  every value converted, hence equal to the input values where the dtype holds them
  exactly. With a specification, on an object built by \<open>__init__\<close>, a successful
  \<open>_perturb_input\<close> returns the same array with the same shape, every column whose name
  is not in the specification keeps its values, and no other array is touched.
\<close>

theorem perturb_input_frame:
  "(perturbation_dict self = None \<longrightarrow>
      perturb_input lib self input_features s = (Inr input_features, s)
      \<and> (validate_input self (heap s input_features) names = Inr () \<longrightarrow>
           forward lib self input_features names truth_dicts custom_label_functions
             loss_weight_column loss_weight loss_weight_default_value data_path s
           = bind_se (lift_se (standardize (the_detector self)
                        (as_tensor (dtype self) (heap s input_features)) names))
               (\<lambda>standardized.
                  bind_se (lift_se (nd_call (the_node_definition self)
                             (input_feature_names self) standardized))
                    (\<lambda>(graph, node_feature_names).
                       attach_fields lib self standardized graph node_feature_names
                         truth_dicts custom_label_functions loss_weight_column loss_weight
                         loss_weight_default_value data_path)) s)
      \<and> ncols (as_tensor (dtype self) (heap s input_features)) = ncols (heap s input_features)
      \<and> rows (as_tensor (dtype self) (heap s input_features))
          = map (map (dtype self)) (rows (heap s input_features))
      \<and> ((\<forall>row \<in> set (rows (heap s input_features)). \<forall>v \<in> set row. dtype self v = v) \<longrightarrow>
           rows (as_tensor (dtype self) (heap s input_features))
             = rows (heap s input_features)))
   \<and> (\<forall>args fresh g d r s'.
        init lib args fresh = Inr (self, g) \<and> perturbation_dict self = Some d
        \<and> perturb_input lib self input_features s = (Inr r, s') \<longrightarrow>
          r = input_features
          \<and> ncols (heap s' input_features) = ncols (heap s input_features)
          \<and> length (rows (heap s' input_features)) = length (rows (heap s input_features))
          \<and> (\<forall>i c. i < length (rows (heap s input_features))
                 \<and> input_feature_names self ! c \<notin> fst ` set d \<longrightarrow>
                 rows (heap s' input_features) ! i ! c = rows (heap s input_features) ! i ! c)
          \<and> (\<forall>r'. r' \<noteq> input_features \<longrightarrow> heap s' r' = heap s r'))"
proof (intro conjI impI allI)
  assume "perturbation_dict self = None"
  then show "perturb_input lib self input_features s = (Inr input_features, s)"
    by (rule perturb_input_None)
next
  assume "perturbation_dict self = None"
    and "validate_input self (heap s input_features) names = Inr ()"
  then show "forward lib self input_features names truth_dicts custom_label_functions
             loss_weight_column loss_weight loss_weight_default_value data_path s
           = bind_se (lift_se (standardize (the_detector self)
                        (as_tensor (dtype self) (heap s input_features)) names))
               (\<lambda>standardized.
                  bind_se (lift_se (nd_call (the_node_definition self)
                             (input_feature_names self) standardized))
                    (\<lambda>(graph, node_feature_names).
                       attach_fields lib self standardized graph node_feature_names
                         truth_dicts custom_label_functions loss_weight_column loss_weight
                         loss_weight_default_value data_path)) s"
    by (rule forward_unperturbed)
next
  show "ncols (as_tensor (dtype self) (heap s input_features)) = ncols (heap s input_features)"
    by (rule as_tensor_shape(1))
next
  show "rows (as_tensor (dtype self) (heap s input_features))
          = map (map (dtype self)) (rows (heap s input_features))"
    by (rule as_tensor_shape(2))
next
  assume "\<forall>row \<in> set (rows (heap s input_features)). \<forall>v \<in> set row. dtype self v = v"
  then show "rows (as_tensor (dtype self) (heap s input_features))
             = rows (heap s input_features)"
    by (rule as_tensor_exact)
next
  fix args :: "'a init_args" and fresh g d r s'
  assume a: "init lib args fresh = Inr (self, g) \<and> perturbation_dict self = Some d
        \<and> perturb_input lib self input_features s = (Inr r, s')"
  note u = perturb_input_untouched [OF conjunct1 [OF a] conjunct1 [OF conjunct2 [OF a]]
      conjunct2 [OF conjunct2 [OF a]]]
  show "r = input_features" by (rule u(1))
  show "ncols (heap s' input_features) = ncols (heap s input_features)" by (rule u(2))
  show "length (rows (heap s' input_features)) = length (rows (heap s input_features))"
    by (rule u(3))
  show "rows (heap s' input_features) ! i ! c = rows (heap s input_features) ! i ! c"
    if "i < length (rows (heap s input_features))
                 \<and> input_feature_names self ! c \<notin> fst ` set d" for i c
    using that u(4) by blast
  show "heap s' r' = heap s r'" if "r' \<noteq> input_features" for r'
    using that by (rule u(5))
qed

theorem perturb_input_frame_witness:
  "perturbation_dict example_self = None
   \<and> perturb_input example_library example_self 0 example_state = (Inr 0, example_state)
   \<and> init example_library example_perturbed_args 0 = Inr (example_perturbed_self, 7)
   \<and> perturbation_dict example_perturbed_self = Some [(''x2'', 1 / 2)]
   \<and> fst (perturb_input example_library example_perturbed_self 0 example_state) = Inr 0
   \<and> (0 :: nat) < length (rows (heap example_state 0))
   \<and> input_feature_names example_perturbed_self ! 2 \<notin> fst ` set [(''x2'', 1 / 2 :: real)]
   \<and> rows (heap (snd (perturb_input example_library example_perturbed_self 0 example_state)) 0)
         ! 0 ! 2 = 3"
proof -
  have none: "perturbation_dict example_self = None"
    by (simp add: example_self_def)
  have d: "perturbation_dict example_perturbed_self = Some [(''x2'', 1 / 2)]"
    by (simp add: example_perturbed_self_def)
  have i: "(0 :: nat) < length (rows (heap example_state 0))"
    by (simp add: example_state_def example_table_def)
  have c: "input_feature_names example_perturbed_self ! 2 \<notin> fst ` set [(''x2'', 1 / 2 :: real)]"
    by (simp add: example_perturbed_self_def example_self_def)
  have old: "rows (heap example_state 0) ! 0 ! 2 = 3"
    by (simp add: example_state_def example_table_def)
  from perturb_input_frame [of example_self example_library 0 example_state] none
  have 1: "perturb_input example_library example_self 0 example_state = (Inr 0, example_state)"
    by blast
  obtain r s' where run:
    "perturb_input example_library example_perturbed_self 0 example_state = (Inr r, s')"
    using perturb_example by blast
  from perturb_input_frame [of example_perturbed_self example_library 0 example_state]
    init_example_perturbed [of 0] d run
  have "r = 0 \<and> (\<forall>i c. i < length (rows (heap example_state 0))
                 \<and> input_feature_names example_perturbed_self ! c
                      \<notin> fst ` set [(''x2'', 1 / 2 :: real)] \<longrightarrow>
                 rows (heap s' 0) ! i ! c = rows (heap example_state 0) ! i ! c)"
    by blast
  with i c old run have 2:
    "fst (perturb_input example_library example_perturbed_self 0 example_state) = Inr 0"
    "rows (heap (snd (perturb_input example_library example_perturbed_self 0 example_state)) 0)
         ! 0 ! 2 = 3"
    by simp_all
  from none 1 init_example_perturbed [of 0] d 2 i c show ?thesis
    by blast
qed

lemma floorlog_binade: "2 ^ n \<le> x \<Longrightarrow> x < 2 ^ Suc n \<Longrightarrow> floorlog 2 x = Suc n"
  using floorlog_leI [of x 2 "Suc n"] floorlog_ge_SucI [of 2 n x] by simp

lemma binary_exponent_24:
  "binary_exponent 16777217 = 24" "binary_exponent 16777216 = 24"
  using floorlog_binade [of 24 16777217] floorlog_binade [of 24 16777216]
  by (simp_all add: binary_exponent_def)

lemma to_float32_example:
  "to_float32 16777217 = 16777216" "to_float32 16777216 = 16777216"
  by (simp_all add: to_float32_def binary_exponent_24 round_half_even_def Let_def)

lemma init_example_float32:
  "init example_library example_float32_args fresh = Inr (example_float32_self, 7)"
  by (simp add: init_def init_members_def init_rng_def resolve_names_def Let_def
        example_library_def example_args_def example_self_def example_detector_def
        pass_through_def example_float32_args_def example_float32_self_def)

text \<open>
  C4 as stated fails: with the default dtype and no perturbation specification, the
  float64 value \<open>2 ^ 24 + 1\<close> of the input table reaches the detector as \<open>2 ^ 24\<close>.
\<close>

theorem unperturbed_float32_counterexample:
  "init example_library example_float32_args 0 = Inr (example_float32_self, 7)
   \<and> perturbation_dict example_float32_self = None
   \<and> validate_input example_float32_self (heap example_float32_state 0) [''charge''] = Inr ()
   \<and> rows (heap example_float32_state 0) = [[16777217]]
   \<and> rows (as_tensor (dtype example_float32_self) (heap example_float32_state 0))
       = [[16777216]]
   \<and> map_sum id (\<lambda>graph. graph ''x'')
        (fst (forward example_library example_float32_self 0 [''charge''] None None None None
                None None example_float32_state))
       = Inr (Some (Tensor2 \<lparr>ncols = 1, rows = [[16777216]]\<rparr>))"
proof -
  have none: "perturbation_dict example_float32_self = None"
    by (simp add: example_float32_self_def example_self_def)
  have v: "validate_input example_float32_self (heap example_float32_state 0) [''charge'']
      = Inr ()"
    by (simp add: validate_input_eq example_float32_self_def example_self_def
        example_float32_state_def)
  have old: "rows (heap example_float32_state 0) = [[16777217]]"
    by (simp add: example_float32_state_def)
  have t: "as_tensor (dtype example_float32_self) (heap example_float32_state 0)
      = \<lparr>ncols = 1, rows = [[16777216]]\<rparr>"
    by (simp add: as_tensor_def example_float32_self_def example_self_def
        example_float32_state_def to_float32_example)
  have p: "perturb_input example_library example_float32_self 0 example_float32_state
      = (Inr 0, example_float32_state)"
    using none by (rule perturb_input_None)
  have f: "map_sum id (\<lambda>graph. graph ''x'')
        (fst (forward example_library example_float32_self 0 [''charge''] None None None None
                None None example_float32_state))
       = Inr (Some (Tensor2 \<lparr>ncols = 1, rows = [[16777216]]\<rparr>))"
    apply (simp add: forward_def bind_se_def lift_se_def v p t)
    apply (simp add: example_float32_self_def example_self_def example_detector_def
        pass_through_def attach_fields_def bind_se_def lift_se_def x_type_def as_tensor_def
        int32_tensor_def add_loss_weights_def add_features_individually_def x_column_def
        to_float32_example)
    done
  from init_example_float32 [of 0] none v old t f show ?thesis
    by simp
qed




text \<open>
  The same perturbation on the int64 table: the generator draws 2.5 and 5.5 for the
  second column, and the array holds 2 and 5 afterwards. On the read-only table the
  assignment raises and the array keeps its values.
\<close>

lemma perturb_input_int64_example:
  "perturb_input example_library example_perturbed_self 0 example_int64_state
   = (Inr 0, (warning_once (WillPerturb [''x2''] [1 / 2]) example_int64_state)
        \<lparr>rng := 1,
         heap := (heap example_int64_state)
           (0 := example_table\<lparr>rows := [[1, 2, 3], [4, 5, 6]], store_as := to_int64\<rparr>)\<rparr>)"
  by (simp add: perturb_input_def example_perturbed_self_def example_self_def Let_def
      take_columns_def put_columns_def example_library_def example_int64_state_def
      example_table_def warning_once_def to_int64_def)

lemma perturb_input_read_only_example:
  "perturb_input example_library example_perturbed_self 0 example_read_only_state
   = (Inl ValueError,
      (warning_once (WillPerturb [''x2''] [1 / 2]) example_read_only_state)\<lparr>rng := 1\<rparr>)"
  by (simp add: perturb_input_def example_perturbed_self_def example_self_def Let_def
      take_columns_def put_columns_def example_library_def example_read_only_state_def
      example_table_def warning_once_def)

section \<open>Truth labels\<close>

lemma attached_simps [simp]:
  "attached lib [] = []"
  "torch_tensor lib v = Inr t \<Longrightarrow> attached lib ((key, v) # items) = (key, t) # attached lib items"
  "torch_tensor lib v = Inl e \<Longrightarrow> attached lib ((key, v) # items) = attached lib items"
  by (simp_all add: attached_def map_filter_simps)

lemma skipped_simps [simp]:
  "skipped lib [] = []"
  "torch_tensor lib v = Inr t \<Longrightarrow> skipped lib ((key, v) # items) = skipped lib items"
  "torch_tensor lib v = Inl TypeError \<Longrightarrow>
     skipped lib ((key, v) # items)
       = (DEBUG, CouldNotAssign key (type_name lib v)) # skipped lib items"
  by (simp_all add: skipped_def)

lemma add_truth_items_append:
  "add_truth_items lib (xs @ ys) graph s =
     (case add_truth_items lib xs graph s of
        (Inl e, s') \<Rightarrow> (Inl e, s')
      | (Inr graph', s') \<Rightarrow> add_truth_items lib ys graph' s')"
proof (induction xs arbitrary: graph s)
  case Nil
  then show ?case by simp
next
  case (Cons p xs)
  obtain key v where p: "p = (key, v)"
    by (cases p)
  show ?case
  proof (cases "torch_tensor lib v")
    case (Inr t)
    then have "add_truth_items lib ((p # xs) @ ys) graph s
        = add_truth_items lib (xs @ ys) (graph(key \<mapsto> t)) s"
      unfolding p by simp
    also note Cons.IH [of "graph(key \<mapsto> t)" s]
    also have "add_truth_items lib xs (graph(key \<mapsto> t)) s
        = add_truth_items lib (p # xs) graph s"
      unfolding p using Inr by simp
    finally show ?thesis .
  next
    case (Inl e)
    show ?thesis
    proof (cases "e = TypeError")
      case True
      let ?s1 = "debug (CouldNotAssign key (type_name lib v)) s"
      from Inl True have "add_truth_items lib ((p # xs) @ ys) graph s
          = add_truth_items lib (xs @ ys) graph ?s1"
        unfolding p by simp
      also note Cons.IH [of graph ?s1]
      also have "add_truth_items lib xs graph ?s1 = add_truth_items lib (p # xs) graph s"
        unfolding p using Inl True by simp
      finally show ?thesis .
    next
      case False
      with Inl show ?thesis
        unfolding p by simp
    qed
  qed
qed

lemma add_truth_concat:
  "add_truth lib truth_dicts graph s = add_truth_items lib (concat truth_dicts) graph s"
proof (induction truth_dicts arbitrary: graph s)
  case Nil
  then show ?case by simp
next
  case (Cons d ds)
  show ?case
    by (simp add: add_truth_items_append Cons.IH split: prod.splits sum.splits)
qed

lemma add_truth_items_ok:
  "only_type_errors lib items \<Longrightarrow>
   add_truth_items lib items graph s
     = (Inr (graph ++ map_of (rev (attached lib items))),
        s\<lparr>emitted := emitted s @ skipped lib items\<rparr>)"
proof (induction items arbitrary: graph s)
  case Nil
  then show ?case by simp
next
  case (Cons p items)
  obtain key v where p: "p = (key, v)"
    by (cases p)
  from Cons.prems have rest: "only_type_errors lib items"
    by (simp add: only_type_errors_def)
  show ?case
  proof (cases "torch_tensor lib v")
    case (Inr t)
    then have "add_truth_items lib (p # items) graph s
        = add_truth_items lib items (graph(key \<mapsto> t)) s"
      unfolding p by simp
    also note Cons.IH [OF rest, of "graph(key \<mapsto> t)" s]
    also have "graph(key \<mapsto> t) ++ map_of (rev (attached lib items))
        = graph ++ map_of (rev (attached lib (p # items)))"
      unfolding p attached_simps(2) [OF Inr] by simp
    also have "skipped lib items = skipped lib (p # items)"
      unfolding p skipped_simps(2) [OF Inr] by (rule refl)
    finally show ?thesis .
  next
    case (Inl e)
    with Cons.prems p have e: "e = TypeError"
      by (simp add: only_type_errors_def)
    let ?m = "CouldNotAssign key (type_name lib v)"
    from Inl e have t: "torch_tensor lib v = Inl TypeError"
      by simp
    then have "add_truth_items lib (p # items) graph s
        = add_truth_items lib items graph (debug ?m s)"
      unfolding p by simp
    also note Cons.IH [OF rest, of graph "debug ?m s"]
    also have "attached lib items = attached lib (p # items)"
      unfolding p attached_simps(3) [OF t] by (rule refl)
    also have "(debug ?m s)\<lparr>emitted := emitted (debug ?m s) @ skipped lib items\<rparr>
        = s\<lparr>emitted := emitted s @ skipped lib (p # items)\<rparr>"
      unfolding p skipped_simps(3) [OF t] by (simp add: debug_def)
    finally show ?thesis .
  qed
qed

lemma add_truth_items_abort:
  "\<not> only_type_errors lib items \<Longrightarrow>
   \<exists>e s'. add_truth_items lib items graph s = (Inl e, s') \<and> e \<noteq> TypeError"
proof (induction items arbitrary: graph s)
  case Nil
  then show ?case by (simp add: only_type_errors_def)
next
  case (Cons p items)
  obtain key v where p: "p = (key, v)"
    by (cases p)
  show ?case
  proof (cases "torch_tensor lib v")
    case (Inr t)
    with Cons.prems p have "\<not> only_type_errors lib items"
      by (simp add: only_type_errors_def)
    from Cons.IH [OF this] Inr show ?thesis
      unfolding p by simp
  next
    case (Inl e)
    show ?thesis
    proof (cases "e = TypeError")
      case True
      with Inl Cons.prems p have "\<not> only_type_errors lib items"
        by (simp add: only_type_errors_def)
      from Cons.IH [OF this] Inl True show ?thesis
        unfolding p by simp
    next
      case False
      with Inl show ?thesis
        unfolding p by simp
    qed
  qed
qed

text \<open>
  C6 (as amended): when every conversion that fails in the truth dictionaries fails
  with \<open>TypeError\<close> (as a text value does), \<open>_add_truth\<close> returns normally; the graph has
  gained exactly the convertible pairs, a later pair overwriting an earlier one with
  the same key, the skipped keys are not attached, and one debug message naming the
  key and the type of its value has been emitted per skipped pair, in order. When
  some conversion fails with another error, the error is not caught and the call
  fails with it.
\<close>

theorem add_truth_skips_type_errors:
  "(only_type_errors lib (concat truth_dicts) \<longrightarrow>
      add_truth lib truth_dicts graph s
        = (Inr (graph ++ map_of (rev (attached lib (concat truth_dicts)))),
           s\<lparr>emitted := emitted s @ skipped lib (concat truth_dicts)\<rparr>))
   \<and> (\<not> only_type_errors lib (concat truth_dicts) \<longrightarrow>
        (\<exists>e s'. add_truth lib truth_dicts graph s = (Inl e, s') \<and> e \<noteq> TypeError))"
  unfolding add_truth_concat
  using add_truth_items_ok [of lib "concat truth_dicts" graph s]
    add_truth_items_abort [of lib "concat truth_dicts" graph s]
  by blast

theorem add_truth_skips_type_errors_witness:
  "only_type_errors example_library (concat example_truth_dicts)
   \<and> add_truth example_library example_truth_dicts Map.empty example_state
       = (Inr (Map.empty(''a'' \<mapsto> IntTensor0 2, ''b'' \<mapsto> IntTensor0 3)),
          example_state\<lparr>emitted := [(DEBUG, CouldNotAssign ''name'' ''str'')]\<rparr>)"
proof -
  have tt: "torch_tensor example_library (PyInt 1) = Inr (IntTensor0 1)"
    "torch_tensor example_library (PyInt 2) = Inr (IntTensor0 2)"
    "torch_tensor example_library (PyInt 3) = Inr (IntTensor0 3)"
    "torch_tensor example_library (PyStr ''mu'') = Inl TypeError"
    by (simp_all add: example_library_def)
  have ok: "only_type_errors example_library (concat example_truth_dicts)"
    by (simp add: only_type_errors_def example_truth_dicts_def tt)
  have a: "attached example_library (concat example_truth_dicts)
      = [(''a'', IntTensor0 1), (''a'', IntTensor0 2), (''b'', IntTensor0 3)]"
    by (simp add: example_truth_dicts_def tt)
  have k: "skipped example_library (concat example_truth_dicts)
      = [(DEBUG, CouldNotAssign ''name'' ''str'')]"
    by (simp add: example_truth_dicts_def tt) (simp add: example_library_def)
  from add_truth_skips_type_errors [of example_library example_truth_dicts Map.empty
      example_state] ok
  have "add_truth example_library example_truth_dicts Map.empty example_state
        = (Inr (Map.empty ++ map_of (rev (attached example_library (concat example_truth_dicts)))),
           example_state\<lparr>emitted := emitted example_state
              @ skipped example_library (concat example_truth_dicts)\<rparr>)"
    by blast
  then have "add_truth example_library example_truth_dicts Map.empty example_state
       = (Inr (Map.empty(''a'' \<mapsto> IntTensor0 2, ''b'' \<mapsto> IntTensor0 3)),
          example_state\<lparr>emitted := [(DEBUG, CouldNotAssign ''name'' ''str'')]\<rparr>)"
    unfolding a k by (simp add: example_state_def)
  with ok show ?thesis
    by blast
qed

text \<open>
  C6 as stated fails: \<open>None\<close> cannot be converted to a tensor, the conversion raises
  \<open>RuntimeError\<close>, and the whole call fails instead of skipping the key.
\<close>

theorem add_truth_none_counterexample:
  "torch_tensor example_library PyNone = Inl RuntimeError
   \<and> add_truth example_library [[(''energy'', PyFloat 1), (''event_id'', PyNone)]] Map.empty
        example_state = (Inl RuntimeError, example_state)
   \<and> fst (forward example_library example_self 0 [''x1'', ''x2'', ''x3'']
            (Some [[(''energy'', PyFloat 1), (''event_id'', PyNone)]]) None None None None None
            example_state) = Inl RuntimeError"
proof -
  have t: "torch_tensor example_library PyNone = Inl RuntimeError"
    "torch_tensor example_library (PyFloat 1) = Inr (Tensor0 1)"
    by (simp_all add: example_library_def)
  have run: "add_truth example_library [[(''energy'', PyFloat 1), (''event_id'', PyNone)]] g s
      = (Inl RuntimeError, s)" for g and s :: "nat state"
    by (simp add: t)
  have v: "validate_input example_self (heap example_state 0) [''x1'', ''x2'', ''x3''] = Inr ()"
    by (simp add: validate_input_eq example_self_def example_state_def example_table_def)
  have p: "perturb_input example_library example_self 0 example_state = (Inr 0, example_state)"
    by (simp add: perturb_input_def example_self_def)
  have "fst (forward example_library example_self 0 [''x1'', ''x2'', ''x3'']
            (Some [[(''energy'', PyFloat 1), (''event_id'', PyNone)]]) None None None None None
            example_state) = Inl RuntimeError"
    apply (simp add: forward_def bind_se_def lift_se_def v p)
    apply (simp add: example_self_def example_detector_def pass_through_def
        attach_fields_def bind_se_def lift_se_def x_type_def as_tensor_def int32_tensor_def
        example_state_def example_table_def add_loss_weights_def run
        del: add_truth.simps add_truth_items.simps)
    done
  with t(1) run show ?thesis
    by simp
qed

section \<open>Node features as separate fields\<close>

lemma warning_once_idem [simp]: "warning_once m (warning_once m s) = warning_once m s"
  by (simp add: warning_once_def)

lemma add_features_loop_x:
  "add_features_loop xs graph s = (Inr graph', s') \<Longrightarrow> graph' ''x'' = graph ''x''"
proof (induction xs arbitrary: graph s)
  case Nil
  then show ?case by simp
next
  case (Cons p xs)
  obtain i feature where p: "p = (i, feature)"
    by (cases p)
  show ?case
  proof (cases "feature = ''x''")
    case True
    with Cons.prems p
    have "add_features_loop xs graph (warning_once CannotAssignX s) = (Inr graph', s')"
      by simp
    then show ?thesis
      by (rule Cons.IH)
  next
    case False
    with Cons.prems p obtain col where
      "add_features_loop xs (graph(feature \<mapsto> col)) s = (Inr graph', s')"
      by (auto split: sum.splits)
    from Cons.IH [OF this] False show ?thesis
      by simp
  qed
qed

lemma x_column_Tensor2:
  "graph ''x'' = Some (Tensor2 a) \<Longrightarrow> i < ncols a \<Longrightarrow>
   x_column graph i = Inr (Tensor1 (map (\<lambda>r. r ! i) (rows a)))"
  by (simp add: x_column_def)

lemma add_features_loop_columns:
  assumes "graph ''x'' = Some (Tensor2 a)" and "n + length xs \<le> ncols a"
  shows "\<exists>graph'.
      add_features_loop (enumerate n xs) graph s
        = (Inr graph', if ''x'' \<in> set xs then warning_once CannotAssignX s else s)
      \<and> graph' ''x'' = Some (Tensor2 a)
      \<and> (\<forall>i < length xs. xs ! i \<noteq> ''x'' \<and> xs ! i \<notin> set (drop (Suc i) xs) \<longrightarrow>
            graph' (xs ! i) = Some (Tensor1 (map (\<lambda>r. r ! (n + i)) (rows a))))
      \<and> (\<forall>k. k \<notin> set xs \<longrightarrow> graph' k = graph k)"
  using assms
proof (induction xs arbitrary: n graph s)
  case Nil
  then show ?case by simp
next
  case (Cons f xs)
  from Cons.prems(2) have n: "n < ncols a" and rest: "Suc n + length xs \<le> ncols a"
    by simp_all
  show ?case
  proof (cases "f = ''x''")
    case True
    from Cons.IH [of graph "Suc n" "warning_once CannotAssignX s", OF Cons.prems(1) rest] obtain graph' where
      g: "add_features_loop (enumerate (Suc n) xs) graph (warning_once CannotAssignX s)
            = (Inr graph', warning_once CannotAssignX s)"
        "graph' ''x'' = Some (Tensor2 a)"
        "\<forall>i < length xs. xs ! i \<noteq> ''x'' \<and> xs ! i \<notin> set (drop (Suc i) xs) \<longrightarrow>
            graph' (xs ! i) = Some (Tensor1 (map (\<lambda>r. r ! (Suc n + i)) (rows a)))"
        "\<forall>k. k \<notin> set xs \<longrightarrow> graph' k = graph k"
      by auto
    have run: "add_features_loop (enumerate n (f # xs)) graph s
        = (Inr graph', if ''x'' \<in> set (f # xs) then warning_once CannotAssignX s else s)"
      using True g(1) by simp
    have cols: "\<forall>i < length (f # xs). (f # xs) ! i \<noteq> ''x''
          \<and> (f # xs) ! i \<notin> set (drop (Suc i) (f # xs)) \<longrightarrow>
            graph' ((f # xs) ! i) = Some (Tensor1 (map (\<lambda>r. r ! (n + i)) (rows a)))"
    proof (intro allI impI)
      fix i
      assume i: "i < length (f # xs)"
        and h: "(f # xs) ! i \<noteq> ''x'' \<and> (f # xs) ! i \<notin> set (drop (Suc i) (f # xs))"
      show "graph' ((f # xs) ! i) = Some (Tensor1 (map (\<lambda>r. r ! (n + i)) (rows a)))"
      proof (cases i)
        case 0
        with h True show ?thesis by simp
      next
        case (Suc j)
        with i h g(3) show ?thesis by simp
      qed
    qed
    have others: "\<forall>k. k \<notin> set (f # xs) \<longrightarrow> graph' k = graph k"
      using g(4) by simp
    from run g(2) cols others show ?thesis
      by blast
  next
    case False
    let ?col = "Tensor1 (map (\<lambda>r. r ! n) (rows a))"
    let ?graph1 = "graph(f \<mapsto> ?col)"
    have x1: "?graph1 ''x'' = Some (Tensor2 a)"
      using False Cons.prems(1) by simp
    from Cons.IH [of ?graph1 "Suc n" s, OF x1 rest] obtain graph' where
      g: "add_features_loop (enumerate (Suc n) xs) ?graph1 s
            = (Inr graph', if ''x'' \<in> set xs then warning_once CannotAssignX s else s)"
        "graph' ''x'' = Some (Tensor2 a)"
        "\<forall>i < length xs. xs ! i \<noteq> ''x'' \<and> xs ! i \<notin> set (drop (Suc i) xs) \<longrightarrow>
            graph' (xs ! i) = Some (Tensor1 (map (\<lambda>r. r ! (Suc n + i)) (rows a)))"
        "\<forall>k. k \<notin> set xs \<longrightarrow> graph' k = ?graph1 k"
      by blast
    have run: "add_features_loop (enumerate n (f # xs)) graph s
        = (Inr graph', if ''x'' \<in> set (f # xs) then warning_once CannotAssignX s else s)"
      using False g(1) x_column_Tensor2 [of graph a n, OF Cons.prems(1) n] by simp
    have cols: "\<forall>i < length (f # xs). (f # xs) ! i \<noteq> ''x''
          \<and> (f # xs) ! i \<notin> set (drop (Suc i) (f # xs)) \<longrightarrow>
            graph' ((f # xs) ! i) = Some (Tensor1 (map (\<lambda>r. r ! (n + i)) (rows a)))"
    proof (intro allI impI)
      fix i
      assume i: "i < length (f # xs)"
        and h: "(f # xs) ! i \<noteq> ''x'' \<and> (f # xs) ! i \<notin> set (drop (Suc i) (f # xs))"
      show "graph' ((f # xs) ! i) = Some (Tensor1 (map (\<lambda>r. r ! (n + i)) (rows a)))"
      proof (cases i)
        case 0
        with h have "f \<notin> set xs" by simp
        with g(4) have "graph' f = ?graph1 f" by blast
        with 0 show ?thesis by simp
      next
        case (Suc j)
        with i h g(3) show ?thesis by simp
      qed
    qed
    have others: "\<forall>k. k \<notin> set (f # xs) \<longrightarrow> graph' k = graph k"
      using g(4) by simp
    from run g(2) cols others show ?thesis
      by blast
  qed
qed

text \<open>
  C7: \<open>_add_features_individually\<close> never writes the field \<open>x\<close>: whenever it returns, \<open>x\<close>
  is what it was. When \<open>x\<close> is a 2-D tensor with at least as many columns as there are
  node feature names, it returns normally, \<open>x\<close> is still that tensor, every name other
  than \<open>x\<close> holds its column of \<open>x\<close> (for a name listed twice, the last listing wins),
  and the warning about the reserved name is given once if \<open>x\<close> is among the names.
  Detaching from the autograd graph has no counterpart in the model.
\<close>

theorem add_features_individually_reserved:
  "(\<forall>graph' s'. add_features_individually graph node_feature_names s = (Inr graph', s') \<longrightarrow>
       graph' ''x'' = graph ''x'')
   \<and> (\<forall>a. graph ''x'' = Some (Tensor2 a) \<and> length node_feature_names \<le> ncols a \<longrightarrow>
        (\<exists>graph'.
           add_features_individually graph node_feature_names s
             = (Inr graph',
                if ''x'' \<in> set node_feature_names then warning_once CannotAssignX s else s)
           \<and> graph' ''x'' = Some (Tensor2 a)
           \<and> (\<forall>i < length node_feature_names.
                 node_feature_names ! i \<noteq> ''x''
                 \<and> node_feature_names ! i \<notin> set (drop (Suc i) node_feature_names) \<longrightarrow>
                 graph' (node_feature_names ! i)
                   = Some (Tensor1 (map (\<lambda>r. r ! i) (rows a))))))"
proof (intro conjI allI impI)
  fix graph' s'
  assume "add_features_individually graph node_feature_names s = (Inr graph', s')"
  then have "graph' ''x'' = (graph(''features'' \<mapsto> StrList node_feature_names)) ''x''"
    unfolding add_features_individually_def by (rule add_features_loop_x)
  then show "graph' ''x'' = graph ''x''"
    by simp
next
  fix a
  assume h: "graph ''x'' = Some (Tensor2 a) \<and> length node_feature_names \<le> ncols a"
  let ?graph0 = "graph(''features'' \<mapsto> StrList node_feature_names)"
  from h have x: "?graph0 ''x'' = Some (Tensor2 a)"
    by simp
  from h have n: "0 + length node_feature_names \<le> ncols a"
    by simp
  from add_features_loop_columns [of ?graph0 a 0 node_feature_names s, OF x n]
  show "\<exists>graph'.
           add_features_individually graph node_feature_names s
             = (Inr graph',
                if ''x'' \<in> set node_feature_names then warning_once CannotAssignX s else s)
           \<and> graph' ''x'' = Some (Tensor2 a)
           \<and> (\<forall>i < length node_feature_names.
                 node_feature_names ! i \<noteq> ''x''
                 \<and> node_feature_names ! i \<notin> set (drop (Suc i) node_feature_names) \<longrightarrow>
                 graph' (node_feature_names ! i)
                   = Some (Tensor1 (map (\<lambda>r. r ! i) (rows a))))"
    unfolding add_features_individually_def by auto
qed

theorem add_features_individually_reserved_witness:
  "example_graph ''x'' = Some (Tensor2 \<lparr>ncols = 2, rows = [[1, 2], [3, 4]]\<rparr>)
   \<and> length [''x'', ''t''] \<le> ncols \<lparr>ncols = 2, rows = [[1, 2], [3, 4]]\<rparr>
   \<and> (\<exists>graph'.
        add_features_individually example_graph [''x'', ''t''] example_state
          = (Inr graph', warning_once CannotAssignX example_state)
        \<and> graph' ''x'' = Some (Tensor2 \<lparr>ncols = 2, rows = [[1, 2], [3, 4]]\<rparr>)
        \<and> graph' ''t'' = Some (Tensor1 [2, 4]))"
proof -
  let ?a = "\<lparr>ncols = 2, rows = [[1, 2], [3, 4 :: real]]\<rparr>"
  have x: "example_graph ''x'' = Some (Tensor2 ?a)"
    by (simp add: example_graph_def)
  have n: "length [''x'', ''t''] \<le> ncols ?a"
    by simp
  from add_features_individually_reserved [of example_graph "[''x'', ''t'']" example_state] x n
  obtain graph' where
    g: "add_features_individually example_graph [''x'', ''t''] example_state
          = (Inr graph',
             if ''x'' \<in> set [''x'', ''t''] then warning_once CannotAssignX example_state
             else example_state)"
      "graph' ''x'' = Some (Tensor2 ?a)"
      "\<forall>i < length [''x'', ''t''].
          [''x'', ''t''] ! i \<noteq> ''x'' \<and> [''x'', ''t''] ! i \<notin> set (drop (Suc i) [''x'', ''t'']) \<longrightarrow>
          graph' ([''x'', ''t''] ! i) = Some (Tensor1 (map (\<lambda>r. r ! i) (rows ?a)))"
    by blast
  from g(3) have "graph' ''t'' = Some (Tensor1 [2, 4])"
    by (simp add: less_Suc_eq)
  with g(1,2) x n show ?thesis
    by auto
qed

end
